theory Spec2Isabelle
  imports Main "HOL-Library.Sublist"
begin

section \<open>JavaScript values and thrown errors\<close>

text \<open>
  The values that cross the server: what \<^verbatim>\<open>JSON.parse\<close> produces, what a tool's
  \<^verbatim>\<open>run\<close> returns and what \<^verbatim>\<open>callApi\<close> receives as \<^verbatim>\<open>params\<close>. An object is the
  list of its own properties in insertion order (keys are distinct in JavaScript; a
  lookup takes the first entry). A number is given by an integer, as the numbers of
  the examples are; how a number is printed is left to the runtime.
\<close>

datatype jsval =
    JUndefined
  | JNull
  | JBool bool
  | JNum int
  | JStr string
  | JArr "jsval list"
  | JObj "(string \<times> jsval) list"

text \<open>
  What the code throws: \<^verbatim>\<open>new Error(msg)\<close>, the runtime's \<^verbatim>\<open>TypeError\<close> (named
  by the operation that failed) and \<^verbatim>\<open>SyntaxError\<close> (of \<^verbatim>\<open>JSON.parse\<close>), and zod's
  \<^verbatim>\<open>ZodError\<close> with its issues, each issue a path and a code.
\<close>

datatype zod_issue = Issue string string

datatype js_error =
    JsError string
  | JsTypeError string
  | JsSyntaxError string
  | ZodError "zod_issue list"

text \<open>A call either returns or throws (an \<^verbatim>\<open>async\<close> function resolves or rejects).\<close>

datatype 'a outcome = Returned 'a | Threw js_error

text \<open>\<^verbatim>\<open>if (v)\<close>, \<^verbatim>\<open>!v\<close>, \<^verbatim>\<open>a && b\<close>, \<^verbatim>\<open>a || b\<close> test this.\<close>

fun truthy :: "jsval \<Rightarrow> bool" where
  "truthy JUndefined = False"
| "truthy JNull = False"
| "truthy (JBool b) = b"
| "truthy (JNum n) = (n \<noteq> 0)"
| "truthy (JStr s) = (s \<noteq> [])"
| "truthy (JArr xs) = True"
| "truthy (JObj kvs) = True"

text \<open>
  \<^verbatim>\<open>v.key\<close> for a value that is neither \<^verbatim>\<open>null\<close> nor \<^verbatim>\<open>undefined\<close>: an object's own
  property, \<^verbatim>\<open>undefined\<close> when it has none. The keys the server reads (\<^verbatim>\<open>content\<close>,
  \<^verbatim>\<open>method\<close>, \<^verbatim>\<open>id\<close>, \<^verbatim>\<open>params\<close>, \<^verbatim>\<open>name\<close>, \<^verbatim>\<open>arguments\<close>) are no properties of
  strings, numbers, booleans or arrays.
\<close>

fun prop_of :: "jsval \<Rightarrow> string \<Rightarrow> jsval" where
  "prop_of (JObj kvs) k = (case map_of kvs k of None \<Rightarrow> JUndefined | Some v \<Rightarrow> v)"
| "prop_of v k = JUndefined"

text \<open>\<^verbatim>\<open>v.key\<close> in general: reading a property of \<^verbatim>\<open>null\<close> or \<^verbatim>\<open>undefined\<close> throws.\<close>

fun get_prop :: "jsval \<Rightarrow> string \<Rightarrow> js_error + jsval" where
  "get_prop JUndefined k = Inl (JsTypeError (''read '' @ k @ '' of undefined''))"
| "get_prop JNull k = Inl (JsTypeError (''read '' @ k @ '' of null''))"
| "get_prop v k = Inr (prop_of v k)"

text \<open>\<^verbatim>\<open>obj[k] = v\<close>: an existing property keeps its place, a new one goes last.\<close>

fun obj_set :: "(string \<times> jsval) list \<Rightarrow> string \<Rightarrow> jsval \<Rightarrow> (string \<times> jsval) list" where
  "obj_set [] k v = [(k, v)]"
| "obj_set ((k', v') # kvs) k v =
     (if k' = k then (k, v) # kvs else (k', v') # obj_set kvs k v)"

subsection \<open>Numbers and values as strings\<close>

definition digit_char :: "nat \<Rightarrow> char" where
  "digit_char d = ''0123456789'' ! d"

fun show_nat :: "nat \<Rightarrow> string" where
  "show_nat n = (if n < 10 then [digit_char n] else show_nat (n div 10) @ [digit_char (n mod 10)])"

declare show_nat.simps [simp del]

definition show_int :: "int \<Rightarrow> string" where
  "show_int i = (if i < 0 then CHR ''-'' # show_nat (nat (- i)) else show_nat (nat i))"

fun join :: "string \<Rightarrow> string list \<Rightarrow> string" where
  "join sep [] = []"
| "join sep [x] = x"
| "join sep (x # y # ys) = x @ sep @ join sep (y # ys)"

text \<open>
  The conversion to a string that a template literal and \<^verbatim>\<open>URLSearchParams.append\<close>
  apply to their argument, given the runtime's printing of numbers. A string is
  itself. An array joins its elements with commas, \<^verbatim>\<open>null\<close> and \<^verbatim>\<open>undefined\<close>
  elements as the empty string. An object is converted by its \<^verbatim>\<open>toString\<close>: the
  inherited one gives \<^verbatim>\<open>[object Object]\<close>; an own property of that name, which in a
  value that came from JSON is never a function, leaves the object without a
  primitive value and the conversion throws a \<^verbatim>\<open>TypeError\<close>.
\<close>

fun to_String :: "(int \<Rightarrow> string) \<Rightarrow> jsval \<Rightarrow> js_error + string"
  and elements_to_String :: "(int \<Rightarrow> string) \<Rightarrow> jsval list \<Rightarrow> js_error + string list" where
  "to_String num JUndefined = Inr ''undefined''"
| "to_String num JNull = Inr ''null''"
| "to_String num (JBool b) = Inr (if b then ''true'' else ''false'')"
| "to_String num (JNum n) = Inr (num n)"
| "to_String num (JStr s) = Inr s"
| "to_String num (JArr xs) =
     (case elements_to_String num xs of Inl e \<Rightarrow> Inl e | Inr strs \<Rightarrow> Inr (join '','' strs))"
| "to_String num (JObj kvs) =
     (if ''toString'' \<in> set (map fst kvs) then Inl (JsTypeError ''convert object to primitive value'')
      else Inr ''[object Object]'')"
| "elements_to_String num [] = Inr []"
| "elements_to_String num (x # xs) =
     (case (if x = JUndefined \<or> x = JNull then Inr [] else to_String num x) of
        Inl e \<Rightarrow> Inl e
      | Inr str \<Rightarrow> (case elements_to_String num xs of Inl e \<Rightarrow> Inl e | Inr strs \<Rightarrow> Inr (str # strs)))"

section \<open>The filter schema layer: zod schemas\<close>

text \<open>
  The schemas the tools build with zod, as data. \<^verbatim>\<open>ZRegexDate msg\<close> is
  \<^verbatim>\<open>.regex(/^\d{8}-\d{8}$/, msg)\<close>, the one regular expression of the repository;
  \<^verbatim>\<open>ZLength n\<close> is \<^verbatim>\<open>.length(n)\<close>; \<^verbatim>\<open>ZodDescribed z d\<close> is \<^verbatim>\<open>z.describe(d)\<close>.
\<close>

datatype zcheck = ZRegexDate string | ZLength nat

datatype zod =
    ZodString "zcheck list"
  | ZodEnum "string list"
  | ZodOptional zod
  | ZodDefault zod jsval
  | ZodDescribed zod string

definition is_digit :: "char \<Rightarrow> bool" where
  "is_digit c = (c \<in> set ''0123456789'')"

text \<open>
  \<^verbatim>\<open>/^\d{8}-\d{8}$/.test(s)\<close>: without the \<^verbatim>\<open>m\<close> flag the anchors are the two ends
  of the input, so exactly eight digits, a hyphen and eight digits.
\<close>

definition date_regex_test :: "string \<Rightarrow> bool" where
  "date_regex_test s =
     (length s = 17 \<and> list_all is_digit (take 8 s) \<and> take 1 (drop 8 s) = ''-''
      \<and> list_all is_digit (drop 9 s))"

text \<open>The issue codes a string check adds (zod collects every failed check).\<close>

fun check_issues :: "string \<Rightarrow> zcheck \<Rightarrow> string list" where
  "check_issues s (ZRegexDate msg) = (if date_regex_test s then [] else [''invalid_string''])"
| "check_issues s (ZLength n) =
     (if n < length s then [''too_big''] else if length s < n then [''too_small''] else [])"

text \<open>
  zod's parse of one field: the issue codes and the output value. An optional schema
  accepts \<^verbatim>\<open>undefined\<close> (and nothing else that its inner schema refuses: \<^verbatim>\<open>null\<close> is
  not \<^verbatim>\<open>undefined\<close>); a default replaces \<^verbatim>\<open>undefined\<close> before the inner parse.
\<close>

fun zparse_value :: "zod \<Rightarrow> jsval \<Rightarrow> string list \<times> jsval" where
  "zparse_value (ZodString checks) v =
     (case v of JStr s \<Rightarrow> (concat (map (check_issues s) checks), v)
      | _ \<Rightarrow> ([''invalid_type''], v))"
| "zparse_value (ZodEnum vals) v =
     (case v of JStr s \<Rightarrow> (if s \<in> set vals then ([], v) else ([''invalid_enum_value''], v))
      | _ \<Rightarrow> ([''invalid_type''], v))"
| "zparse_value (ZodOptional z) v = (if v = JUndefined then ([], JUndefined) else zparse_value z v)"
| "zparse_value (ZodDefault z d) v = zparse_value z (if v = JUndefined then d else v)"
| "zparse_value (ZodDescribed z d) v = zparse_value z v"

text \<open>
  \<^verbatim>\<open>z.object(shape).parse(input)\<close>: the input must be an object (not an array, not
  \<^verbatim>\<open>null\<close>); every field of the shape is parsed, in the shape's order; keys outside
  the shape are dropped; a field is in the output when its value is not \<^verbatim>\<open>undefined\<close>
  or the input has the key. One issue anywhere and the parse throws.
\<close>

fun zparse_fields :: "(string \<times> zod) list \<Rightarrow> (string \<times> jsval) list \<Rightarrow> zod_issue list \<times> (string \<times> jsval) list" where
  "zparse_fields [] input = ([], [])"
| "zparse_fields ((k, z) # shape) input =
     (let (codes, v) = zparse_value z (prop_of (JObj input) k);
          (issues, out) = zparse_fields shape input
      in (map (Issue k) codes @ issues,
          if k \<in> set (map fst input) \<or> v \<noteq> JUndefined then (k, v) # out else out))"

fun zparse_object :: "(string \<times> zod) list \<Rightarrow> jsval \<Rightarrow> zod_issue list + (string \<times> jsval) list" where
  "zparse_object shape (JObj input) =
     (case zparse_fields shape input of
        ([], out) \<Rightarrow> Inr out
      | (issues, out) \<Rightarrow> Inl issues)"
| "zparse_object shape v = Inl [Issue [] ''invalid_type'']"


subsection \<open>The three input schemas\<close>

definition getMRRInput :: "(string \<times> zod) list" where
  "getMRRInput =
    [ (''date'', ZodDescribed (ZodOptional (ZodString [ZRegexDate ''Date must be in format yyyyMMdd-yyyyMMdd'']))
         ''Reporting period in format yyyyMMdd-yyyyMMdd, e.g., 20241128-20250828. Defaults to last 365 days if omitted''),
      (''interval'', ZodDescribed (ZodDefault (ZodOptional (ZodEnum [''day'', ''week'', ''month'', ''quarter'', ''year''])) (JStr ''month''))
         (''Reporting interval. Defaults to '' @ [CHR 0x27] @ ''month'' @ [CHR 0x27])),
      (''region'', ZodDescribed (ZodOptional (ZodEnum [''europe'', ''asia'', ''north_america'', ''emea'', ''apac'']))
         ''Filter by region (optional)''),
      (''currency'', ZodDescribed (ZodOptional (ZodString [ZLength 3]))
         ''Filter by 3-letter currency code in lower case, e.g., usd, eur (optional)''),
      (''billing_freq'', ZodDescribed (ZodOptional (ZodEnum [''month'', ''quarter'', ''year'', ''week'']))
         ''Filter by billing frequency (month, year, quarter, week - optional)''),
      (''payment_method'', ZodDescribed (ZodOptional (ZodString []))
         ''Filter by payment method, e.g., visa, mastercard (optional)''),
      (''age'', ZodDescribed (ZodOptional (ZodString []))
         ''Filter by customer age group (optional)'') ]"

definition getLeadsInput :: "(string \<times> zod) list" where
  "getLeadsInput =
    [ (''date'', ZodDescribed (ZodOptional (ZodString [ZRegexDate ''Date must be in format yyyyMMdd-yyyyMMdd'']))
         ''Reporting period in format yyyyMMdd-yyyyMMdd. Defaults to last 365 days if omitted''),
      (''interval'', ZodDescribed (ZodDefault (ZodOptional (ZodEnum [''day'', ''week'', ''month'', ''quarter'', ''year''])) (JStr ''month''))
         (''Reporting interval. Defaults to '' @ [CHR 0x27] @ ''month'' @ [CHR 0x27])),
      (''region'', ZodDescribed (ZodOptional (ZodEnum [''europe'', ''asia'', ''north_america'', ''emea'', ''apac'']))
         ''Filter by region (optional)''),
      (''currency'', ZodDescribed (ZodOptional (ZodString [ZLength 3]))
         ''Filter by 3-letter currency code, e.g., usd, eur (optional)''),
      (''payment_method'', ZodDescribed (ZodOptional (ZodString []))
         ''Filter by payment method, e.g., visa, mastercard (optional)''),
      (''age'', ZodDescribed (ZodOptional (ZodString []))
         ''Filter by customer age group (optional)'') ]"

definition getCohortsInput :: "(string \<times> zod) list" where
  "getCohortsInput =
    [ (''date'', ZodDescribed (ZodOptional (ZodString [ZRegexDate ''Date must be in format yyyyMMdd-yyyyMMdd'']))
         ''Reporting period in format yyyyMMdd-yyyyMMdd. Defaults to last 365 days if omitted''),
      (''interval'', ZodDescribed (ZodDefault (ZodOptional (ZodEnum [''day'', ''week'', ''month'', ''quarter'', ''year''])) (JStr ''month''))
         (''Reporting interval. Defaults to '' @ [CHR 0x27] @ ''month'' @ [CHR 0x27])),
      (''region'', ZodDescribed (ZodOptional (ZodEnum [''europe'', ''asia'', ''north_america'', ''emea'', ''apac'']))
         ''Filter by region (optional)''),
      (''currency'', ZodDescribed (ZodOptional (ZodString [ZLength 3]))
         ''Filter by 3-letter currency code, e.g., usd, eur (optional)''),
      (''billing_freq'', ZodDescribed (ZodOptional (ZodEnum [''month'', ''quarter'', ''year'', ''week'']))
         ''Billing frequency (optional)''),
      (''payment_method'', ZodDescribed (ZodOptional (ZodString []))
         ''Filter by payment method (optional)''),
      (''age'', ZodDescribed (ZodOptional (ZodString []))
         ''Filter by customer age group (optional)'') ]"

definition getMRR_name :: string where
  "getMRR_name = ''getMRR''"

definition getLeads_name :: string where
  "getLeads_name = ''getLeads''"

definition getCohorts_name :: string where
  "getCohorts_name = ''getCohorts''"

definition getMRR_description :: string where
  "getMRR_description = ''Retrieve MRR, ARR, ARPA, ASP, churn metrics, customer movements, LTV, FX adjustments, and net MRR movements from GrowPanel''"

definition getLeads_description :: string where
  "getLeads_description = ''Retrieve lead, trial, and conversion metrics from GrowPanel, including conversion rates, trial stats, and forecasts''"

definition getCohorts_description :: string where
  "getCohorts_description = ''Retrieve cohort metrics from GrowPanel, including MRR and customer retention/churn over periods''"

section \<open>The runtime's dates\<close>

text \<open>
  A \<^verbatim>\<open>Date\<close> is its time value, the milliseconds since 1970-01-01T00:00Z. The
  operations below are the abstract operations of the ECMAScript specification that
  \<^verbatim>\<open>getDate\<close>, \<^verbatim>\<open>setDate\<close> and \<^verbatim>\<open>toISOString\<close> are defined by, under their names
  there. Time values stay far inside the range of valid dates (the clock read, moved
  by a year), so \<^verbatim>\<open>TimeClip\<close> is the identity and is left out.
\<close>

definition msPerDay :: int where
  "msPerDay = 86400000"

definition Day :: "int \<Rightarrow> int" where
  "Day t = t div msPerDay"

definition TimeWithinDay :: "int \<Rightarrow> int" where
  "TimeWithinDay t = t mod msPerDay"

definition DaysInYear :: "int \<Rightarrow> int" where
  "DaysInYear y =
     (if y mod 4 \<noteq> 0 then 365 else if y mod 100 \<noteq> 0 then 366
      else if y mod 400 \<noteq> 0 then 365 else 366)"

definition DayFromYear :: "int \<Rightarrow> int" where
  "DayFromYear y =
     365 * (y - 1970) + (y - 1969) div 4 - (y - 1901) div 100 + (y - 1601) div 400"

text \<open>
  The year of a time value: the largest \<open>y\<close> whose first day is not after it. The mean
  year of 146097 / 400 days gives it up to one year, and one comparison each way
  settles it.
\<close>

definition YearFromDay :: "int \<Rightarrow> int" where
  "YearFromDay d =
     (let y = 1970 + (d * 400) div 146097
      in if DayFromYear (y + 1) \<le> d then y + 1
         else if d < DayFromYear y then y - 1 else y)"

definition YearFromTime :: "int \<Rightarrow> int" where
  "YearFromTime t = YearFromDay (Day t)"

definition InLeapYear :: "int \<Rightarrow> int" where
  "InLeapYear t = (if DaysInYear (YearFromTime t) = 366 then 1 else 0)"

definition DayWithinYear :: "int \<Rightarrow> int" where
  "DayWithinYear t = Day t - DayFromYear (YearFromTime t)"

text \<open>
  The month (from 0) and the day of the month (from 1) of a time value, by the
  specification's tables on the day within the year.
\<close>

definition MonthFromTime :: "int \<Rightarrow> int" where
  "MonthFromTime t =
     (let d = DayWithinYear t; l = InLeapYear t
      in if d < 31 then 0
         else if d < 59 + l then 1
         else if d < 90 + l then 2
         else if d < 120 + l then 3
         else if d < 151 + l then 4
         else if d < 181 + l then 5
         else if d < 212 + l then 6
         else if d < 243 + l then 7
         else if d < 273 + l then 8
         else if d < 304 + l then 9
         else if d < 334 + l then 10
         else 11)"

definition DateFromTime :: "int \<Rightarrow> int" where
  "DateFromTime t =
     (let d = DayWithinYear t; l = InLeapYear t; m = MonthFromTime t
      in if m = 0 then d + 1
         else if m = 1 then d - 30
         else if m = 2 then d - 58 - l
         else if m = 3 then d - 89 - l
         else if m = 4 then d - 119 - l
         else if m = 5 then d - 150 - l
         else if m = 6 then d - 180 - l
         else if m = 7 then d - 211 - l
         else if m = 8 then d - 242 - l
         else if m = 9 then d - 272 - l
         else if m = 10 then d - 303 - l
         else d - 333 - l)"

text \<open>
  \<^verbatim>\<open>MakeDay(year, month, date)\<close>: the day number of the first day of the month
  (\<open>month_starts\<close>: the day of the year each month starts at, \<open>l\<close> being 1 in a leap
  year), moved by \<open>date - 1\<close> days.
\<close>

definition month_starts :: "int \<Rightarrow> int list" where
  "month_starts l =
     [0, 31, 59 + l, 90 + l, 120 + l, 151 + l, 181 + l, 212 + l, 243 + l, 273 + l, 304 + l, 334 + l]"

definition MakeDay :: "int \<Rightarrow> int \<Rightarrow> int \<Rightarrow> int" where
  "MakeDay year month date =
     (let ym = year + month div 12;
          mn = month mod 12
      in DayFromYear ym + month_starts (if DaysInYear ym = 366 then 1 else 0) ! nat mn + date - 1)"

definition MakeDate :: "int \<Rightarrow> int \<Rightarrow> int" where
  "MakeDate day time = day * msPerDay + time"

text \<open>
  Local time. \<open>tza t True\<close> is the offset of the process's time zone at the UTC time
  \<open>t\<close>, \<open>tza t False\<close> the offset at the local time \<open>t\<close> (the specification's
  \<^verbatim>\<open>LocalTZA(t, isUTC)\<close>), in milliseconds.
\<close>

definition LocalTime :: "(int \<Rightarrow> bool \<Rightarrow> int) \<Rightarrow> int \<Rightarrow> int" where
  "LocalTime tza t = t + tza t True"

definition UTC :: "(int \<Rightarrow> bool \<Rightarrow> int) \<Rightarrow> int \<Rightarrow> int" where
  "UTC tza t = t - tza t False"

text \<open>\<^verbatim>\<open>d.getDate()\<close>: the day of the month in local time.\<close>

definition getDate :: "(int \<Rightarrow> bool \<Rightarrow> int) \<Rightarrow> int \<Rightarrow> int" where
  "getDate tza d = DateFromTime (LocalTime tza d)"

text \<open>
  \<^verbatim>\<open>d.setDate(dt)\<close>: the local year, month and time of day kept, the day of the month
  replaced (days outside the month roll over), and the result read as a local time.
\<close>

definition setDate :: "(int \<Rightarrow> bool \<Rightarrow> int) \<Rightarrow> int \<Rightarrow> int \<Rightarrow> int" where
  "setDate tza d dt =
     (let t = LocalTime tza d;
          newDate = MakeDate (MakeDay (YearFromTime t) (MonthFromTime t) dt) (TimeWithinDay t)
      in UTC tza newDate)"

definition pad :: "nat \<Rightarrow> nat \<Rightarrow> string" where
  "pad width n = replicate (width - length (show_nat n)) (CHR ''0'') @ show_nat n"

text \<open>
  \<^verbatim>\<open>d.toISOString()\<close>: the UTC fields, \<^verbatim>\<open>YYYY-MM-DDTHH:mm:ss.sssZ\<close>; a year outside
  0..9999 is written with a sign and six digits.
\<close>

definition toISOString :: "int \<Rightarrow> string" where
  "toISOString t =
     (let y = YearFromTime t;
          year = (if 0 \<le> y \<and> y \<le> 9999 then pad 4 (nat y)
                  else (if y < 0 then ''-'' else ''+'') @ pad 6 (nat (abs y)))
      in year @ ''-'' @ pad 2 (nat (MonthFromTime t + 1)) @ ''-'' @ pad 2 (nat (DateFromTime t))
         @ ''T'' @ pad 2 (nat ((t div 3600000) mod 24)) @ '':'' @ pad 2 (nat ((t div 60000) mod 60))
         @ '':'' @ pad 2 (nat ((t div 1000) mod 60)) @ ''.'' @ pad 3 (nat (t mod 1000)) @ ''Z'')"

subsection \<open>date-fns\<close>

text \<open>
  \<^verbatim>\<open>subDays(date, amount)\<close> is \<^verbatim>\<open>addDays(date, -amount)\<close>, which copies the date and
  calls \<^verbatim>\<open>setDate(getDate() + amount)\<close> on the copy (nothing for an amount of 0).
\<close>

definition subDays :: "(int \<Rightarrow> bool \<Rightarrow> int) \<Rightarrow> int \<Rightarrow> int \<Rightarrow> int" where
  "subDays tza d amount = (if amount = 0 then d else setDate tza d (getDate tza d + (- amount)))"

text \<open>
  \<^verbatim>\<open>format(d, "yyyyMMdd")\<close>: the local year (a year before 1 by its era count), month
  and day, zero-padded to 4, 2 and 2 digits.
\<close>

definition format_yyyyMMdd :: "(int \<Rightarrow> bool \<Rightarrow> int) \<Rightarrow> int \<Rightarrow> string" where
  "format_yyyyMMdd tza d =
     (let t = LocalTime tza d;
          signedYear = YearFromTime t;
          year = (if signedYear > 0 then signedYear else 1 - signedYear)
      in pad 4 (nat year) @ pad 2 (nat (MonthFromTime t + 1)) @ pad 2 (nat (DateFromTime t)))"

text \<open>
  For stating what a date range is: the calendar date of a day number (days since
  1970-01-01), written \<^verbatim>\<open>yyyyMMdd\<close>.
\<close>

definition ymd :: "int \<Rightarrow> string" where
  "ymd day =
     (let t = day * msPerDay
      in pad 4 (nat (YearFromTime t)) @ pad 2 (nat (MonthFromTime t + 1)) @ pad 2 (nat (DateFromTime t)))"

section \<open>The process and the world around it\<close>

text \<open>
  An HTTP request as \<^verbatim>\<open>fetch\<close> receives it: the method, the URL, which is
  \<^verbatim>\<open>new URL(path, base)\<close> and is kept as its base and its path, the query parameters
  appended to it, in order, and the headers.
\<close>

record http_request =
  req_method :: string
  req_base :: string
  req_path :: string
  req_query :: "(string \<times> string) list"
  req_headers :: "(string \<times> string) list"

text \<open>
  A response: \<^verbatim>\<open>status\<close>, \<^verbatim>\<open>statusText\<close>, and what \<^verbatim>\<open>text()\<close> and \<^verbatim>\<open>json()\<close> give
  (each may reject).
\<close>

record response =
  status :: nat
  statusText :: string
  text_body :: "js_error + string"
  json_body :: "js_error + jsval"

datatype fetch_result = FetchRejected js_error | FetchResponse response

text \<open>
  What the code reads from outside itself: the two environment variables; the clock,
  as what the first \<^verbatim>\<open>new Date()\<close> of a tool call reads (\<open>now\<close>) and what a second
  one right after it reads (\<open>now_again\<close>: getMRR.run reads the clock twice); the time
  zone; the upstream service behind \<^verbatim>\<open>fetch\<close>; and the library functions whose
  results it passes on: whether \<^verbatim>\<open>new URL(path, base)\<close> returns (it throws a
  \<^verbatim>\<open>TypeError\<close> otherwise), the runtime's printing of a number, \<^verbatim>\<open>JSON.parse\<close>
  (\<open>Inl\<close> the message of the \<^verbatim>\<open>SyntaxError\<close>), \<^verbatim>\<open>JSON.stringify(v, null, 2)\<close> (\<open>None\<close>
  for \<^verbatim>\<open>undefined\<close>), the message text of a \<^verbatim>\<open>ZodError\<close> and of a \<^verbatim>\<open>TypeError\<close>, and
  the validation and formatting of the MRR report (lines 120 to 173 of getMRR.ts: it
  throws or returns the report's content envelope).
\<close>

record env =
  GROWPANEL_API_URL :: "string option"
  GROWPANEL_API_TOKEN :: "string option"
  now :: int
  now_again :: int
  LocalTZA :: "int \<Rightarrow> bool \<Rightarrow> int"
  fetch :: "http_request \<Rightarrow> fetch_result"
  URL_canParse :: "string \<Rightarrow> string \<Rightarrow> bool"
  Number_toString :: "int \<Rightarrow> string"
  JSON_parse :: "string \<Rightarrow> string + jsval"
  JSON_stringify :: "jsval \<Rightarrow> string option"
  zod_message :: "zod_issue list \<Rightarrow> string"
  type_error_message :: "string \<Rightarrow> string"
  mrr_report :: "jsval \<Rightarrow> js_error + jsval"

text \<open>\<^verbatim>\<open>error.message\<close>.\<close>

fun error_message :: "env \<Rightarrow> js_error \<Rightarrow> string" where
  "error_message env (JsError m) = m"
| "error_message env (JsSyntaxError m) = m"
| "error_message env (JsTypeError what) = type_error_message env what"
| "error_message env (ZodError issues) = zod_message env issues"

text \<open>A value as the \<^verbatim>\<open>text\<close> of a content block: \<^verbatim>\<open>JSON.stringify(v, null, 2)\<close>.\<close>

definition stringify :: "env \<Rightarrow> jsval \<Rightarrow> jsval" where
  "stringify env v = (case JSON_stringify env v of None \<Rightarrow> JUndefined | Some s \<Rightarrow> JStr s)"

section \<open>The upstream client\<close>

text \<open>
  \<^verbatim>\<open>callApi(endpoint, params)\<close> of utils/api.ts, with the requests it issued. A
  variable that is unset or empty is falsy, for the default of the base URL and for
  the check of the token alike. The loop over \<^verbatim>\<open>Object.keys(params)\<close> appends a
  parameter for every key whose value is neither \<^verbatim>\<open>undefined\<close> nor \<^verbatim>\<open>null\<close>; a value
  that has no string form ends the loop, and the call, with the \<^verbatim>\<open>TypeError\<close>.
\<close>

fun append_all :: "(int \<Rightarrow> string) \<Rightarrow> (string \<times> jsval) list \<Rightarrow> string list \<Rightarrow> js_error + (string \<times> string) list" where
  "append_all num params [] = Inr []"
| "append_all num params (key # keys) =
     (if prop_of (JObj params) key \<noteq> JUndefined \<and> prop_of (JObj params) key \<noteq> JNull then
        (case to_String num (prop_of (JObj params) key) of
           Inl e \<Rightarrow> Inl e
         | Inr str \<Rightarrow>
             (case append_all num params keys of
                Inl e \<Rightarrow> Inl e
              | Inr searchParams \<Rightarrow> Inr ((key, str) # searchParams)))
      else append_all num params keys)"

definition baseUrl :: "env \<Rightarrow> string" where
  "baseUrl env =
     (case GROWPANEL_API_URL env of
        None \<Rightarrow> ''https://api.growpanel.io''
      | Some u \<Rightarrow> if u = [] then ''https://api.growpanel.io'' else u)"

definition callApi :: "env \<Rightarrow> string \<Rightarrow> (string \<times> jsval) list \<Rightarrow> jsval outcome \<times> http_request list" where
  "callApi env endpoint params =
     (case GROWPANEL_API_TOKEN env of
           None \<Rightarrow> (Threw (JsError ''GROWPANEL_API_KEY environment variable is required''), [])
         | Some apiKey \<Rightarrow>
             if apiKey = [] then
               (Threw (JsError ''GROWPANEL_API_KEY environment variable is required''), [])
             else if \<not> URL_canParse env (''/reports/'' @ endpoint) (baseUrl env) then
               (Threw (JsTypeError ''construct URL''), [])
             else
               (case append_all (Number_toString env) params (map fst params) of
                  Inl e \<Rightarrow> (Threw e, [])
                | Inr searchParams \<Rightarrow>
                    (let request = \<lparr> req_method = ''GET'', req_base = baseUrl env,
                                     req_path = ''/reports/'' @ endpoint, req_query = searchParams,
                                     req_headers = [(''Authorization'', ''Bearer '' @ apiKey),
                                                    (''Content-Type'', ''application/json'')] \<rparr>
                     in case fetch env request of
                          FetchRejected e \<Rightarrow> (Threw e, [request])
                        | FetchResponse r \<Rightarrow>
                            if \<not> (200 \<le> status r \<and> status r \<le> 299) then
                              (case text_body r of
                                 Inl e \<Rightarrow> (Threw e, [request])
                               | Inr errorText \<Rightarrow>
                                   (Threw (JsError (''API call failed: '' @ show_nat (status r) @ '' ''
                                                     @ statusText r @ '' - '' @ errorText)),
                                    [request]))
                            else
                              (case json_body r of
                                 Inl e \<Rightarrow> (Threw e, [request])
                               | Inr result \<Rightarrow> (Returned result, [request])))))"

section \<open>The tools\<close>

text \<open>\<^verbatim>\<open>{ content: [{ type: "text", text: t }] }\<close>.\<close>

definition text_block :: "jsval \<Rightarrow> jsval" where
  "text_block t = JObj [(''type'', JStr ''text''), (''text'', t)]"

definition envelope :: "jsval list \<Rightarrow> jsval" where
  "envelope blocks = JObj [(''content'', JArr blocks)]"

text \<open>
  Each \<^verbatim>\<open>run\<close> parses its arguments, copies the parsed object into \<^verbatim>\<open>filters\<close>, gives
  \<^verbatim>\<open>filters.date\<close> a default when it is falsy, and calls the upstream. In getMRR.run the
  default is built from two \<^verbatim>\<open>Date\<close>s, each a reading of the clock, \<^verbatim>\<open>end\<close> the
  first and \<^verbatim>\<open>start\<close> the second, \<^verbatim>\<open>start\<close> moved with
  \<^verbatim>\<open>setDate(end.getDate() - 365)\<close>, both written by
  \<^verbatim>\<open>toISOString().slice(0, 10).replace(/-/g, "")\<close>.
\<close>

definition format_iso :: "int \<Rightarrow> string" where
  "format_iso d = filter (\<lambda>c. c \<noteq> CHR ''-'') (take 10 (toISOString d))"

definition getMRR_filters :: "env \<Rightarrow> (string \<times> jsval) list \<Rightarrow> (string \<times> jsval) list" where
  "getMRR_filters env parsed =
     (if \<not> truthy (prop_of (JObj parsed) ''date'') then
        (let end_d = now env;
             start_d = setDate (LocalTZA env) (now_again env) (getDate (LocalTZA env) end_d - 365)
         in obj_set parsed ''date'' (JStr (format_iso start_d @ ''-'' @ format_iso end_d)))
      else parsed)"

definition getMRR_run :: "env \<Rightarrow> jsval \<Rightarrow> jsval outcome \<times> http_request list" where
  "getMRR_run env params =
     (case zparse_object getMRRInput params of
        Inl issues \<Rightarrow> (Threw (ZodError issues), [])
      | Inr parsed \<Rightarrow>
          (case callApi env ''mrr'' (getMRR_filters env parsed) of
             (Threw e, reqs) \<Rightarrow> (Threw e, reqs)
           | (Returned apiResponse, reqs) \<Rightarrow>
               (case mrr_report env apiResponse of
                  Inl e \<Rightarrow> (Threw e, reqs)
                | Inr report \<Rightarrow> (Returned report, reqs))))"

text \<open>getLeads.run and getCohorts.run: the date default comes from date-fns.\<close>

definition getLeads_filters :: "env \<Rightarrow> (string \<times> jsval) list \<Rightarrow> (string \<times> jsval) list" where
  "getLeads_filters env parsed =
     (if \<not> truthy (prop_of (JObj parsed) ''date'') then
        (let end_d = now env;
             start_d = subDays (LocalTZA env) end_d 365
         in obj_set parsed ''date''
              (JStr (format_yyyyMMdd (LocalTZA env) start_d @ ''-'' @ format_yyyyMMdd (LocalTZA env) end_d)))
      else parsed)"

definition getLeads_run :: "env \<Rightarrow> jsval \<Rightarrow> jsval outcome \<times> http_request list" where
  "getLeads_run env params =
     (case zparse_object getLeadsInput params of
        Inl issues \<Rightarrow> (Threw (ZodError issues), [])
      | Inr parsed \<Rightarrow>
          (case callApi env ''leads'' (getLeads_filters env parsed) of
             (Threw e, reqs) \<Rightarrow> (Threw e, reqs)
           | (Returned apiResponse, reqs) \<Rightarrow>
               (Returned (envelope [text_block (stringify env apiResponse)]), reqs)))"

definition getCohorts_filters :: "env \<Rightarrow> (string \<times> jsval) list \<Rightarrow> (string \<times> jsval) list" where
  "getCohorts_filters env parsed =
     (if \<not> truthy (prop_of (JObj parsed) ''date'') then
        (let end_d = now env;
             start_d = subDays (LocalTZA env) end_d 365
         in obj_set parsed ''date''
              (JStr (format_yyyyMMdd (LocalTZA env) start_d @ ''-'' @ format_yyyyMMdd (LocalTZA env) end_d)))
      else parsed)"

definition getCohorts_run :: "env \<Rightarrow> jsval \<Rightarrow> jsval outcome \<times> http_request list" where
  "getCohorts_run env params =
     (case zparse_object getCohortsInput params of
        Inl issues \<Rightarrow> (Threw (ZodError issues), [])
      | Inr parsed \<Rightarrow>
          (case callApi env ''cohort'' (getCohorts_filters env parsed) of
             (Threw e, reqs) \<Rightarrow> (Threw e, reqs)
           | (Returned apiResponse, reqs) \<Rightarrow>
               (Returned (envelope [text_block (stringify env apiResponse)]), reqs)))"

section \<open>The server\<close>

text \<open>
  \<^verbatim>\<open>wrapTool(toolFn)(params)\<close>: the tool's result passes when it is truthy and has a
  truthy \<^verbatim>\<open>content\<close>; an array becomes one text block per element; anything else one
  text block. What the tool throws is thrown on.
\<close>

definition item_text :: "env \<Rightarrow> jsval \<Rightarrow> jsval" where
  "item_text env item = (case item of JStr s \<Rightarrow> JStr s | _ \<Rightarrow> stringify env item)"

definition wrap_result :: "env \<Rightarrow> jsval \<Rightarrow> jsval" where
  "wrap_result env result =
     (if truthy result \<and> truthy (prop_of result ''content'') then result
      else (case result of
              JArr items \<Rightarrow> envelope (map (\<lambda>item. text_block (item_text env item)) items)
            | _ \<Rightarrow> envelope [text_block (item_text env result)]))"

definition wrapTool :: "env \<Rightarrow> (jsval \<Rightarrow> jsval outcome \<times> http_request list) \<Rightarrow> jsval \<Rightarrow> jsval outcome \<times> http_request list" where
  "wrapTool env toolFn params =
     (case toolFn params of
        (Threw e, reqs) \<Rightarrow> (Threw e, reqs)
      | (Returned result, reqs) \<Rightarrow> (Returned (wrap_result env result), reqs))"

text \<open>\<^verbatim>\<open>a || b\<close> on strings.\<close>

definition or_else :: "string \<Rightarrow> string \<Rightarrow> string" where
  "or_else a b = (if a = [] then b else a)"

subsection \<open>The handlers registered with the SDK server (streaming and stdio transports)\<close>

record tool_entry =
  entry_name :: string
  entry_description :: string
  entry_inputSchema :: "(string \<times> zod) list"

text \<open>The \<^verbatim>\<open>ListToolsRequestSchema\<close> handler: it takes no argument.\<close>

definition ListTools_handler :: "tool_entry list" where
  "ListTools_handler =
     [ \<lparr> entry_name = getMRR_name,
         entry_description = or_else getMRR_description ''Get Monthly Recurring Revenue data'',
         entry_inputSchema = getMRRInput \<rparr>,
       \<lparr> entry_name = getLeads_name,
         entry_description = or_else getLeads_description ''Get leads data'',
         entry_inputSchema = getLeadsInput \<rparr>,
       \<lparr> entry_name = getCohorts_name,
         entry_description = or_else getCohorts_description ''Get cohorts data'',
         entry_inputSchema = getCohortsInput \<rparr> ]"

text \<open>
  The \<^verbatim>\<open>CallToolRequestSchema\<close> handler, on the \<^verbatim>\<open>name\<close> (a string: the SDK has
  checked the request) and the \<^verbatim>\<open>arguments\<close> of the request.
\<close>

definition CallTool_handler :: "env \<Rightarrow> string \<Rightarrow> jsval \<Rightarrow> jsval outcome \<times> http_request list" where
  "CallTool_handler env name args =
     (if name = getMRR_name then wrapTool env (getMRR_run env) args
      else if name = getLeads_name then wrapTool env (getLeads_run env) args
      else if name = getCohorts_name then wrapTool env (getCohorts_run env) args
      else (Threw (JsError (''Unknown tool: '' @ name)), []))"

subsection \<open>The POST /events handler (request/response transport)\<close>

text \<open>A JSON-RPC response (\<^verbatim>\<open>jsonrpc: "2.0"\<close> throughout) and the HTTP reply carrying it.\<close>

datatype rpc_payload =
    RpcResult jsval
  | RpcError int string "string option"

record rpc_response =
  rpc_id :: jsval
  rpc_payload :: rpc_payload

record http_reply =
  reply_status :: nat
  reply_body :: rpc_response

text \<open>The catalog literal of the \<^verbatim>\<open>tools/list\<close> branch.\<close>

definition post_tools :: "jsval list" where
  "post_tools =
     [ JObj [(''name'', JStr getMRR_name),
         (''description'', JStr (or_else getMRR_description ''Get Monthly Recurring Revenue data'')),
         (''inputSchema'',
           JObj [(''type'', JStr ''object''),
           (''properties'', JObj
             [(''date'', JObj [(''type'', JStr ''string''), (''description'', JStr ''Date filter'')]),
              (''interval'', JObj [(''type'', JStr ''string''),
                 (''enum'', JArr [JStr ''day'', JStr ''week'', JStr ''month'', JStr ''quarter'', JStr ''year'']),
                 (''default'', JStr ''month''),
                 (''description'', JStr ''Time interval for data aggregation'')]),
              (''region'', JObj [(''type'', JStr ''string''),
                 (''enum'', JArr [JStr ''europe'', JStr ''asia'', JStr ''north_america'', JStr ''emea'', JStr ''apac'']),
                 (''description'', JStr ''Regional filter'')]),
              (''currency'', JObj [(''type'', JStr ''string''), (''description'', JStr ''Currency code'')]),
              (''billing_freq'', JObj [(''type'', JStr ''string''),
                 (''enum'', JArr [JStr ''week'', JStr ''month'', JStr ''quarter'', JStr ''year'']),
                 (''description'', JStr ''Billing frequency filter'')]),
              (''payment_method'', JObj [(''type'', JStr ''string''), (''description'', JStr ''Payment method filter'')]),
              (''age'', JObj [(''type'', JStr ''string''), (''description'', JStr ''Customer age filter'')])]),
           (''required'', JArr [])])],
       JObj [(''name'', JStr getLeads_name),
         (''description'', JStr (or_else getLeads_description ''Get leads data'')),
         (''inputSchema'',
           JObj [(''type'', JStr ''object''),
           (''properties'', JObj
             [(''date'', JObj [(''type'', JStr ''string''), (''description'', JStr ''Date filter'')]),
              (''interval'', JObj [(''type'', JStr ''string''),
                 (''enum'', JArr [JStr ''day'', JStr ''week'', JStr ''month'', JStr ''quarter'', JStr ''year'']),
                 (''default'', JStr ''month''),
                 (''description'', JStr ''Time interval for data aggregation'')]),
              (''region'', JObj [(''type'', JStr ''string''),
                 (''enum'', JArr [JStr ''europe'', JStr ''asia'', JStr ''north_america'', JStr ''emea'', JStr ''apac'']),
                 (''description'', JStr ''Regional filter'')]),
              (''currency'', JObj [(''type'', JStr ''string''), (''description'', JStr ''Currency code'')]),
              (''payment_method'', JObj [(''type'', JStr ''string''), (''description'', JStr ''Payment method filter'')]),
              (''age'', JObj [(''type'', JStr ''string''), (''description'', JStr ''Customer age filter'')])]),
           (''required'', JArr [])])],
       JObj [(''name'', JStr getCohorts_name),
         (''description'', JStr (or_else getCohorts_description ''Get cohorts data'')),
         (''inputSchema'',
           JObj [(''type'', JStr ''object''),
           (''properties'', JObj
             [(''date'', JObj [(''type'', JStr ''string''), (''description'', JStr ''Date filter'')]),
              (''interval'', JObj [(''type'', JStr ''string''),
                 (''enum'', JArr [JStr ''day'', JStr ''week'', JStr ''month'', JStr ''quarter'', JStr ''year'']),
                 (''default'', JStr ''month''),
                 (''description'', JStr ''Time interval for data aggregation'')]),
              (''region'', JObj [(''type'', JStr ''string''),
                 (''enum'', JArr [JStr ''europe'', JStr ''asia'', JStr ''north_america'', JStr ''emea'', JStr ''apac'']),
                 (''description'', JStr ''Regional filter'')]),
              (''currency'', JObj [(''type'', JStr ''string''), (''description'', JStr ''Currency code'')]),
              (''billing_freq'', JObj [(''type'', JStr ''string''),
                 (''enum'', JArr [JStr ''week'', JStr ''month'', JStr ''quarter'', JStr ''year'']),
                 (''description'', JStr ''Billing frequency filter'')]),
              (''payment_method'', JObj [(''type'', JStr ''string''), (''description'', JStr ''Payment method filter'')]),
              (''age'', JObj [(''type'', JStr ''string''), (''description'', JStr ''Customer age filter'')])]),
           (''required'', JArr [])])] ]"

text \<open>
  The \<^verbatim>\<open>tools/call\<close> branch with its own \<^verbatim>\<open>try\<close>: destructuring \<^verbatim>\<open>message.params\<close>
  throws when it is \<^verbatim>\<open>undefined\<close> or \<^verbatim>\<open>null\<close>; the log line before the \<^verbatim>\<open>switch\<close>
  puts \<^verbatim>\<open>name\<close> into a template literal, which throws when \<^verbatim>\<open>name\<close> has no string
  form; the \<^verbatim>\<open>switch\<close> compares with \<^verbatim>\<open>===\<close>.
\<close>

definition tool_payload :: "env \<Rightarrow> jsval outcome \<times> http_request list \<Rightarrow> rpc_payload \<times> http_request list" where
  "tool_payload env r =
     (case r of
        (Returned result, reqs) \<Rightarrow> (RpcResult result, reqs)
      | (Threw toolError, reqs) \<Rightarrow>
          (RpcError (- 32603) ''Internal error'' (Some (error_message env toolError)), reqs))"

definition post_tools_call :: "env \<Rightarrow> jsval \<Rightarrow> rpc_payload \<times> http_request list" where
  "post_tools_call env params =
     (case get_prop params ''name'' of
        Inl e \<Rightarrow> tool_payload env (Threw e, [])
      | Inr name \<Rightarrow>
          (let args = prop_of params ''arguments''
           in case to_String (Number_toString env) name of
                Inl e \<Rightarrow> tool_payload env (Threw e, [])
              | Inr shown \<Rightarrow>
                  if name = JStr getMRR_name then tool_payload env (wrapTool env (getMRR_run env) args)
                  else if name = JStr getLeads_name then tool_payload env (wrapTool env (getLeads_run env) args)
                  else if name = JStr getCohorts_name then tool_payload env (wrapTool env (getCohorts_run env) args)
                  else (RpcError (- 32601) (''Unknown tool: '' @ shown) None, [])))"

text \<open>
  The handler of a POST to /events, on the request body: the reply and the upstream
  requests issued on the way. Whatever the outer \<^verbatim>\<open>try\<close> catches (the
  \<^verbatim>\<open>SyntaxError\<close> of \<^verbatim>\<open>JSON.parse\<close>, and the \<^verbatim>\<open>TypeError\<close> of reading \<^verbatim>\<open>method\<close> off
  a body that parsed to \<^verbatim>\<open>null\<close>) is answered as a parse error.
\<close>

definition parse_error_reply :: "env \<Rightarrow> js_error \<Rightarrow> http_reply" where
  "parse_error_reply env e =
     \<lparr> reply_status = 400,
       reply_body = \<lparr> rpc_id = JNull,
                      rpc_payload = RpcError (- 32700) ''Parse error'' (Some (error_message env e)) \<rparr> \<rparr>"

definition ok_reply :: "jsval \<Rightarrow> rpc_payload \<Rightarrow> http_reply" where
  "ok_reply i p = \<lparr> reply_status = 200, reply_body = \<lparr> rpc_id = i, rpc_payload = p \<rparr> \<rparr>"

definition post_events :: "env \<Rightarrow> string \<Rightarrow> http_reply \<times> http_request list" where
  "post_events env body =
     (case JSON_parse env body of
        Inl m \<Rightarrow> (parse_error_reply env (JsSyntaxError m), [])
      | Inr message \<Rightarrow>
          (case get_prop message ''method'' of
             Inl e \<Rightarrow> (parse_error_reply env e, [])
           | Inr method \<Rightarrow>
               if method = JStr ''tools/list'' then
                 (ok_reply (prop_of message ''id'') (RpcResult (JObj [(''tools'', JArr post_tools)])), [])
               else if method = JStr ''tools/call'' then
                 (case post_tools_call env (prop_of message ''params'') of
                    (payload, reqs) \<Rightarrow> (ok_reply (prop_of message ''id'') payload, reqs))
               else
                 (ok_reply (prop_of message ''id'') (RpcError (- 32601) ''Method not found'' None), [])))"

subsection \<open>What the SDK sends for a handler\<close>

text \<open>
  The SDK's protocol layer around a request handler: what the handler returns is the
  response's result; what it throws becomes an error response whose code is the
  thrown value's \<^verbatim>\<open>code\<close> when that is an integer and InternalError (-32603)
  otherwise, with the thrown value's message. None of the errors thrown in this
  repository has a \<^verbatim>\<open>code\<close> property.
\<close>

definition sdk_reply :: "env \<Rightarrow> jsval outcome \<times> http_request list \<Rightarrow> rpc_payload \<times> http_request list" where
  "sdk_reply env r =
     (case r of
        (Returned result, reqs) \<Rightarrow> (RpcResult result, reqs)
      | (Threw e, reqs) \<Rightarrow> (RpcError (- 32603) (error_message env e) None, reqs))"

section \<open>The running process\<close>

text \<open>
  The handlers do not hold the catalog: at every request they read the three tool
  objects that the tool modules export, \<^verbatim>\<open>getMRR.name\<close>, \<^verbatim>\<open>getMRR.description\<close>,
  \<^verbatim>\<open>getMRR.input.shape\<close>, \<^verbatim>\<open>getMRR.run\<close>, and so for getLeads and getCohorts. A tool
  object is a plain object with these properties.
\<close>

record tool_object =
  tool_name :: string
  tool_description :: string
  tool_input :: "(string \<times> zod) list"
  tool_run :: "env \<Rightarrow> jsval \<Rightarrow> jsval outcome \<times> http_request list"

text \<open>
  The state of the process between two requests: the three tool objects as they are
  at that moment, and the upstream requests issued so far.
\<close>

record process =
  getMRR :: tool_object
  getLeads :: tool_object
  getCohorts :: tool_object
  issued :: "http_request list"

text \<open>The process when the modules have been loaded and nothing has been asked yet.\<close>

definition started :: process where
  "started =
     \<lparr> getMRR = \<lparr> tool_name = getMRR_name, tool_description = getMRR_description,
                  tool_input = getMRRInput, tool_run = getMRR_run \<rparr>,
       getLeads = \<lparr> tool_name = getLeads_name, tool_description = getLeads_description,
                    tool_input = getLeadsInput, tool_run = getLeads_run \<rparr>,
       getCohorts = \<lparr> tool_name = getCohorts_name, tool_description = getCohorts_description,
                      tool_input = getCohortsInput, tool_run = getCohorts_run \<rparr>,
       issued = [] \<rparr>"


text \<open>The two handlers registered with the SDK server, reading the tool objects.\<close>

definition ListTools_of :: "process \<Rightarrow> tool_entry list" where
  "ListTools_of p =
     [ \<lparr> entry_name = tool_name (getMRR p),
         entry_description = or_else (tool_description (getMRR p)) ''Get Monthly Recurring Revenue data'',
         entry_inputSchema = tool_input (getMRR p) \<rparr>,
       \<lparr> entry_name = tool_name (getLeads p),
         entry_description = or_else (tool_description (getLeads p)) ''Get leads data'',
         entry_inputSchema = tool_input (getLeads p) \<rparr>,
       \<lparr> entry_name = tool_name (getCohorts p),
         entry_description = or_else (tool_description (getCohorts p)) ''Get cohorts data'',
         entry_inputSchema = tool_input (getCohorts p) \<rparr> ]"

definition CallTool_of :: "env \<Rightarrow> process \<Rightarrow> string \<Rightarrow> jsval \<Rightarrow> jsval outcome \<times> http_request list" where
  "CallTool_of env p name args =
     (if name = tool_name (getMRR p) then wrapTool env (tool_run (getMRR p) env) args
      else if name = tool_name (getLeads p) then wrapTool env (tool_run (getLeads p) env) args
      else if name = tool_name (getCohorts p) then wrapTool env (tool_run (getCohorts p) env) args
      else (Threw (JsError (''Unknown tool: '' @ name)), []))"

text \<open>
  The POST /events handler, reading the tool objects. In the catalog of its
  \<^verbatim>\<open>tools/list\<close> branch the names and descriptions are read from the tool objects and
  the three \<^verbatim>\<open>inputSchema\<close> values are written out in place.
\<close>

definition getMRR_inputSchema :: jsval where
  "getMRR_inputSchema =
     JObj [(''type'', JStr ''object''),
       (''properties'', JObj
         [(''date'', JObj [(''type'', JStr ''string''), (''description'', JStr ''Date filter'')]),
          (''interval'', JObj [(''type'', JStr ''string''),
             (''enum'', JArr [JStr ''day'', JStr ''week'', JStr ''month'', JStr ''quarter'', JStr ''year'']),
             (''default'', JStr ''month''),
             (''description'', JStr ''Time interval for data aggregation'')]),
          (''region'', JObj [(''type'', JStr ''string''),
             (''enum'', JArr [JStr ''europe'', JStr ''asia'', JStr ''north_america'', JStr ''emea'', JStr ''apac'']),
             (''description'', JStr ''Regional filter'')]),
          (''currency'', JObj [(''type'', JStr ''string''), (''description'', JStr ''Currency code'')]),
          (''billing_freq'', JObj [(''type'', JStr ''string''),
             (''enum'', JArr [JStr ''week'', JStr ''month'', JStr ''quarter'', JStr ''year'']),
             (''description'', JStr ''Billing frequency filter'')]),
          (''payment_method'', JObj [(''type'', JStr ''string''), (''description'', JStr ''Payment method filter'')]),
          (''age'', JObj [(''type'', JStr ''string''), (''description'', JStr ''Customer age filter'')])]),
       (''required'', JArr [])]"

definition getLeads_inputSchema :: jsval where
  "getLeads_inputSchema =
     JObj [(''type'', JStr ''object''),
       (''properties'', JObj
         [(''date'', JObj [(''type'', JStr ''string''), (''description'', JStr ''Date filter'')]),
          (''interval'', JObj [(''type'', JStr ''string''),
             (''enum'', JArr [JStr ''day'', JStr ''week'', JStr ''month'', JStr ''quarter'', JStr ''year'']),
             (''default'', JStr ''month''),
             (''description'', JStr ''Time interval for data aggregation'')]),
          (''region'', JObj [(''type'', JStr ''string''),
             (''enum'', JArr [JStr ''europe'', JStr ''asia'', JStr ''north_america'', JStr ''emea'', JStr ''apac'']),
             (''description'', JStr ''Regional filter'')]),
          (''currency'', JObj [(''type'', JStr ''string''), (''description'', JStr ''Currency code'')]),
          (''payment_method'', JObj [(''type'', JStr ''string''), (''description'', JStr ''Payment method filter'')]),
          (''age'', JObj [(''type'', JStr ''string''), (''description'', JStr ''Customer age filter'')])]),
       (''required'', JArr [])]"

definition getCohorts_inputSchema :: jsval where
  "getCohorts_inputSchema =
     JObj [(''type'', JStr ''object''),
       (''properties'', JObj
         [(''date'', JObj [(''type'', JStr ''string''), (''description'', JStr ''Date filter'')]),
          (''interval'', JObj [(''type'', JStr ''string''),
             (''enum'', JArr [JStr ''day'', JStr ''week'', JStr ''month'', JStr ''quarter'', JStr ''year'']),
             (''default'', JStr ''month''),
             (''description'', JStr ''Time interval for data aggregation'')]),
          (''region'', JObj [(''type'', JStr ''string''),
             (''enum'', JArr [JStr ''europe'', JStr ''asia'', JStr ''north_america'', JStr ''emea'', JStr ''apac'']),
             (''description'', JStr ''Regional filter'')]),
          (''currency'', JObj [(''type'', JStr ''string''), (''description'', JStr ''Currency code'')]),
          (''billing_freq'', JObj [(''type'', JStr ''string''),
             (''enum'', JArr [JStr ''week'', JStr ''month'', JStr ''quarter'', JStr ''year'']),
             (''description'', JStr ''Billing frequency filter'')]),
          (''payment_method'', JObj [(''type'', JStr ''string''), (''description'', JStr ''Payment method filter'')]),
          (''age'', JObj [(''type'', JStr ''string''), (''description'', JStr ''Customer age filter'')])]),
       (''required'', JArr [])]"

definition post_tools_of :: "process \<Rightarrow> jsval list" where
  "post_tools_of p =
     [ JObj [(''name'', JStr (tool_name (getMRR p))),
         (''description'', JStr (or_else (tool_description (getMRR p)) ''Get Monthly Recurring Revenue data'')),
         (''inputSchema'', getMRR_inputSchema)],
       JObj [(''name'', JStr (tool_name (getLeads p))),
         (''description'', JStr (or_else (tool_description (getLeads p)) ''Get leads data'')),
         (''inputSchema'', getLeads_inputSchema)],
       JObj [(''name'', JStr (tool_name (getCohorts p))),
         (''description'', JStr (or_else (tool_description (getCohorts p)) ''Get cohorts data'')),
         (''inputSchema'', getCohorts_inputSchema)] ]"

definition post_tools_call_of :: "env \<Rightarrow> process \<Rightarrow> jsval \<Rightarrow> rpc_payload \<times> http_request list" where
  "post_tools_call_of env p params =
     (case get_prop params ''name'' of
        Inl e \<Rightarrow> tool_payload env (Threw e, [])
      | Inr name \<Rightarrow>
          (let args = prop_of params ''arguments''
           in case to_String (Number_toString env) name of
                Inl e \<Rightarrow> tool_payload env (Threw e, [])
              | Inr shown \<Rightarrow>
                  if name = JStr (tool_name (getMRR p)) then
                    tool_payload env (wrapTool env (tool_run (getMRR p) env) args)
                  else if name = JStr (tool_name (getLeads p)) then
                    tool_payload env (wrapTool env (tool_run (getLeads p) env) args)
                  else if name = JStr (tool_name (getCohorts p)) then
                    tool_payload env (wrapTool env (tool_run (getCohorts p) env) args)
                  else (RpcError (- 32601) (''Unknown tool: '' @ shown) None, [])))"

definition post_events_of :: "env \<Rightarrow> process \<Rightarrow> string \<Rightarrow> http_reply \<times> http_request list" where
  "post_events_of env p body =
     (case JSON_parse env body of
        Inl m \<Rightarrow> (parse_error_reply env (JsSyntaxError m), [])
      | Inr message \<Rightarrow>
          (case get_prop message ''method'' of
             Inl e \<Rightarrow> (parse_error_reply env e, [])
           | Inr method \<Rightarrow>
               if method = JStr ''tools/list'' then
                 (ok_reply (prop_of message ''id'') (RpcResult (JObj [(''tools'', JArr (post_tools_of p))])), [])
               else if method = JStr ''tools/call'' then
                 (case post_tools_call_of env p (prop_of message ''params'') of
                    (payload, reqs) \<Rightarrow> (ok_reply (prop_of message ''id'') payload, reqs))
               else
                 (ok_reply (prop_of message ''id'') (RpcError (- 32601) ''Method not found'' None), [])))"

text \<open>
  What reaches the process: a POST to /events with its body, or, through the SDK
  server on the streaming or the stdio transport, a \<^verbatim>\<open>tools/list\<close> or a \<^verbatim>\<open>tools/call\<close>
  with a name and arguments. What it answers: an HTTP reply, or the result of the
  list handler, or the response the SDK sends for the call handler.
\<close>

datatype request = Post string | ListTools | CallTool string jsval

datatype reply = Http http_reply | Tools "tool_entry list" | Rpc rpc_payload

text \<open>
  One request, served in the world as it is when the request arrives: the answer and
  the process afterwards.
\<close>

definition handle :: "env \<Rightarrow> process \<Rightarrow> request \<Rightarrow> reply \<times> process" where
  "handle env p q =
     (case q of
        Post body \<Rightarrow>
          (case post_events_of env p body of
             (r, reqs) \<Rightarrow> (Http r, p \<lparr> issued := issued p @ reqs \<rparr>))
      | ListTools \<Rightarrow> (Tools (ListTools_of p), p)
      | CallTool name args \<Rightarrow>
          (case sdk_reply env (CallTool_of env p name args) of
             (payload, reqs) \<Rightarrow> (Rpc payload, p \<lparr> issued := issued p @ reqs \<rparr>)))"

text \<open>A run of the process: requests served one after the other, each in its world.\<close>

fun serve :: "process \<Rightarrow> (env \<times> request) list \<Rightarrow> reply list \<times> process" where
  "serve p [] = ([], p)"
| "serve p ((env, q) # rest) =
     (case handle env p q of
        (r, p') \<Rightarrow> (case serve p' rest of (rs, p'') \<Rightarrow> (r # rs, p'')))"

section \<open>The two catalogs side by side\<close>

text \<open>What a zod field schema declares: its enumeration, its default, its checks.\<close>

fun zod_enum :: "zod \<Rightarrow> string list option" where
  "zod_enum (ZodString checks) = None"
| "zod_enum (ZodEnum vals) = Some vals"
| "zod_enum (ZodOptional z) = zod_enum z"
| "zod_enum (ZodDefault z d) = zod_enum z"
| "zod_enum (ZodDescribed z d) = zod_enum z"

fun zod_default :: "zod \<Rightarrow> jsval option" where
  "zod_default (ZodString checks) = None"
| "zod_default (ZodEnum vals) = None"
| "zod_default (ZodOptional z) = zod_default z"
| "zod_default (ZodDefault z d) = Some d"
| "zod_default (ZodDescribed z d) = zod_default z"

fun zod_checks :: "zod \<Rightarrow> zcheck list" where
  "zod_checks (ZodString checks) = checks"
| "zod_checks (ZodEnum vals) = []"
| "zod_checks (ZodOptional z) = zod_checks z"
| "zod_checks (ZodDefault z d) = zod_checks z"
| "zod_checks (ZodDescribed z d) = zod_checks z"

text \<open>
  What a property of a JSON-schema literal declares: its \<^verbatim>\<open>enum\<close>, its \<^verbatim>\<open>default\<close>,
  and its constraints, the keywords beside \<^verbatim>\<open>type\<close>, \<^verbatim>\<open>description\<close>, \<^verbatim>\<open>enum\<close> and
  \<^verbatim>\<open>default\<close> (a \<^verbatim>\<open>pattern\<close>, a \<^verbatim>\<open>minLength\<close>, ...).
\<close>

definition schema_properties :: "jsval \<Rightarrow> (string \<times> jsval) list" where
  "schema_properties schema = (case prop_of schema ''properties'' of JObj ps \<Rightarrow> ps | _ \<Rightarrow> [])"

definition json_enum :: "jsval \<Rightarrow> jsval list option" where
  "json_enum p = (case prop_of p ''enum'' of JArr vals \<Rightarrow> Some vals | _ \<Rightarrow> None)"

definition json_default :: "jsval \<Rightarrow> jsval option" where
  "json_default p = (if prop_of p ''default'' = JUndefined then None else Some (prop_of p ''default''))"

definition json_constraints :: "jsval \<Rightarrow> (string \<times> jsval) list" where
  "json_constraints p =
     (case p of
        JObj kvs \<Rightarrow> filter (\<lambda>kv. fst kv \<notin> set [''type'', ''description'', ''enum'', ''default'']) kvs
      | _ \<Rightarrow> [])"

text \<open>
  The same input shape, as the specification asks for it: the same field names, and
  field by field the same enumeration, the same default, and constraints on both
  sides or on neither.
\<close>

definition same_field :: "zod \<Rightarrow> jsval \<Rightarrow> bool" where
  "same_field z p =
     (map_option (map JStr) (zod_enum z) = json_enum p \<and> zod_default z = json_default p
      \<and> (zod_checks z = []) = (json_constraints p = []))"

definition same_input_shape :: "(string \<times> zod) list \<Rightarrow> jsval \<Rightarrow> bool" where
  "same_input_shape shape schema =
     (map fst shape = map fst (schema_properties schema)
      \<and> list_all2 same_field (map snd shape) (map snd (schema_properties schema)))"

text \<open>What the two catalogs do share: names, and enumerations as sets, and defaults.\<close>

definition same_field_values :: "zod \<Rightarrow> jsval \<Rightarrow> bool" where
  "same_field_values z p =
     (map_option (\<lambda>vals. set (map JStr vals)) (zod_enum z) = map_option set (json_enum p)
      \<and> zod_default z = json_default p)"

definition same_entry_values :: "tool_entry \<Rightarrow> jsval \<Rightarrow> bool" where
  "same_entry_values e t =
     (JStr (entry_name e) = prop_of t ''name''
      \<and> JStr (entry_description e) = prop_of t ''description''
      \<and> map fst (entry_inputSchema e) = map fst (schema_properties (prop_of t ''inputSchema''))
      \<and> list_all2 same_field_values (map snd (entry_inputSchema e))
           (map snd (schema_properties (prop_of t ''inputSchema''))))"

section \<open>A concrete process, for the examples\<close>

text \<open>
  The offsets of Europe/Copenhagen in 2023 and 2024: two hours from the last Sunday of
  March, 01:00 UTC, to the last Sunday of October, 01:00 UTC, and one hour otherwise.
  A local time that the change to summer time skips is read with the offset before
  the change, one that the change back repeats with the offset before it.
\<close>

definition copenhagen_tza :: "int \<Rightarrow> bool \<Rightarrow> int" where
  "copenhagen_tza t isUTC =
     (let u = (if isUTC then t else t - 7200000)
      in if (1679792400000 \<le> u \<and> u < 1698541200000) \<or> (1711846800000 \<le> u \<and> u < 1729990800000)
         then 7200000 else 3600000)"

text \<open>
  A \<^verbatim>\<open>JSON.parse\<close> that knows four bodies and refuses everything else; a
  serialisation for \<^verbatim>\<open>null\<close>, booleans and integers, the values the examples
  serialise (anything else it writes as \<^verbatim>\<open>null\<close>).
\<close>

definition demo_bodies :: "(string \<times> jsval) list" where
  \<open>demo_bodies =
     [ (''{"jsonrpc":"2.0","id":1,"method":"tools/list"}'',
        JObj [(''jsonrpc'', JStr ''2.0''), (''id'', JNum 1), (''method'', JStr ''tools/list'')]),
       (''{"jsonrpc":"2.0","id":2,"method":"tools/list"}'',
        JObj [(''jsonrpc'', JStr ''2.0''), (''id'', JNum 2), (''method'', JStr ''tools/list'')]),
       (''{"jsonrpc":"2.0","id":3,"method":"tools/call","params":{"name":"getLeads","arguments":{"date":"20240101-20240201","region":"europe"}}}'',
        JObj [(''jsonrpc'', JStr ''2.0''), (''id'', JNum 3), (''method'', JStr ''tools/call''),
              (''params'', JObj [(''name'', JStr ''getLeads''),
                                 (''arguments'', JObj [(''date'', JStr ''20240101-20240201''),
                                                       (''region'', JStr ''europe'')])])]),
       (''null'', JNull) ]\<close>

definition demo_parse :: "string \<Rightarrow> string + jsval" where
  "demo_parse body =
     (case map_of demo_bodies body of None \<Rightarrow> Inl ''Unexpected token'' | Some v \<Rightarrow> Inr v)"

definition demo_stringify :: "jsval \<Rightarrow> string option" where
  "demo_stringify v =
     (case v of
        JUndefined \<Rightarrow> None
      | JBool b \<Rightarrow> Some (if b then ''true'' else ''false'')
      | JNum n \<Rightarrow> Some (show_int n)
      | _ \<Rightarrow> Some ''null'')"

text \<open>
  A process in Copenhagen with a token and the default base URL, at
  2024-03-28T00:30:00Z (01:30 local time), the second reading of the clock a
  millisecond later, whose upstream answers every request with 500 and the body
  \<^verbatim>\<open>rate limited\<close>, and whose runtime prints integers in decimal.
\<close>

definition demo_env :: env where
  "demo_env =
     \<lparr> GROWPANEL_API_URL = None,
       GROWPANEL_API_TOKEN = Some ''sk_live_xxx'',
       now = 1711585800000,
       now_again = 1711585800001,
       LocalTZA = copenhagen_tza,
       fetch = (\<lambda>request. FetchResponse
                  \<lparr> status = 500, statusText = ''Internal Server Error'',
                    text_body = Inr ''rate limited'',
                    json_body = Inl (JsSyntaxError ''Unexpected token r'') \<rparr>),
       URL_canParse = (\<lambda>path base. True),
       Number_toString = show_int,
       JSON_parse = demo_parse,
       JSON_stringify = demo_stringify,
       zod_message = (\<lambda>issues. ''invalid arguments''),
       type_error_message = (\<lambda>what. ''Cannot '' @ what),
       mrr_report = (\<lambda>apiResponse. Inr (envelope [text_block (JStr ''# MRR Report'')])) \<rparr>"

text \<open>
  A run of six requests: the catalog is asked on each transport, then a tool is called
  on each (getLeads through the SDK server, then through POST /events), then the
  catalog is asked again on each, a day later.
\<close>

definition demo_later :: env where
  "demo_later = demo_env \<lparr> now := 1711672200000, now_again := 1711672200000 \<rparr>"

definition demo_requests :: "(env \<times> request) list" where
  \<open>demo_requests =
     [ (demo_env, ListTools),
       (demo_env, Post ''{"jsonrpc":"2.0","id":1,"method":"tools/list"}''),
       (demo_env, CallTool ''getLeads'' (JObj [(''date'', JStr ''20240101-20240201'')])),
       (demo_env, Post ''{"jsonrpc":"2.0","id":3,"method":"tools/call","params":{"name":"getLeads","arguments":{"date":"20240101-20240201","region":"europe"}}}''),
       (demo_later, ListTools),
       (demo_later, Post ''{"jsonrpc":"2.0","id":2,"method":"tools/list"}'') ]\<close>

section \<open>The catalogs\<close>

text \<open>
  Claim C1. It asks that, for each of the three tools, the entry of the streaming
  transport's catalog (the tool's zod shape) and the entry of the request/response
  transport's catalog (the JSON-schema literal) declare the same input shape: the
  same field names, enumerations, defaults and constraints. They do not, for any of
  the three: the shape checks \<^verbatim>\<open>date\<close> against the pattern and \<^verbatim>\<open>currency\<close> against
  the length 3, and the literal declares both as plain strings; the shape lists
  \<^verbatim>\<open>billing_freq\<close> as month, quarter, year, week and the literal as week, month,
  quarter, year.
\<close>

theorem catalogs_declare_different_shapes:
  "list_all2 (\<lambda>e t. \<not> same_input_shape (entry_inputSchema e) (prop_of t ''inputSchema''))
     ListTools_handler post_tools"
  by code_simp

text \<open>Field by field: where the two entries of each tool agree and where they do not.\<close>

lemma catalogs_field_by_field:
  "map (\<lambda>(e, t). map (\<lambda>((k, z), (k', p)). (k, same_field z p))
                     (zip (entry_inputSchema e) (schema_properties (prop_of t ''inputSchema''))))
       (zip ListTools_handler post_tools)
   = [[(''date'', False), (''interval'', True), (''region'', True), (''currency'', False),
       (''billing_freq'', False), (''payment_method'', True), (''age'', True)],
      [(''date'', False), (''interval'', True), (''region'', True), (''currency'', False),
       (''payment_method'', True), (''age'', True)],
      [(''date'', False), (''interval'', True), (''region'', True), (''currency'', False),
       (''billing_freq'', False), (''payment_method'', True), (''age'', True)]]"
  by code_simp

text \<open>
  What the two catalogs share: the tools in the same order, with the same names and
  descriptions, the same field names in the same order, the same enumerated values
  up to their order, and the same defaults.
\<close>

lemma catalogs_share_names_and_values:
  "list_all2 same_entry_values ListTools_handler post_tools"
  by code_simp

section \<open>The catalog over a run of the process\<close>

text \<open>
  The process that reads the tool objects is, when started, the server of the
  definitions above, handler by handler.
\<close>

lemma started_tools:
  "tool_name (getMRR started) = getMRR_name" "tool_description (getMRR started) = getMRR_description"
  "tool_input (getMRR started) = getMRRInput" "tool_run (getMRR started) = getMRR_run"
  "tool_name (getLeads started) = getLeads_name" "tool_description (getLeads started) = getLeads_description"
  "tool_input (getLeads started) = getLeadsInput" "tool_run (getLeads started) = getLeads_run"
  "tool_name (getCohorts started) = getCohorts_name" "tool_description (getCohorts started) = getCohorts_description"
  "tool_input (getCohorts started) = getCohortsInput" "tool_run (getCohorts started) = getCohorts_run"
  by (simp_all add: started_def)


lemma started_post_tools:
  "post_tools_of started = post_tools"
  by (simp add: post_tools_of_def post_tools_def started_tools getMRR_inputSchema_def
        getLeads_inputSchema_def getCohorts_inputSchema_def)

lemma started_CallTool:
  "CallTool_of env started name args = CallTool_handler env name args"
  by (simp add: CallTool_of_def CallTool_handler_def started_tools)

lemma started_post_tools_call:
  "post_tools_call_of env started params = post_tools_call env params"
  unfolding post_tools_call_of_def post_tools_call_def started_tools by (rule refl)

lemma started_post_events:
  "post_events_of env started body = post_events env body"
  unfolding post_events_of_def post_events_def started_post_tools started_post_tools_call by (rule refl)







text \<open>
  In that run the first two answers are these same catalogs, and the two tool calls
  in between each sent a request upstream.
\<close>

lemma demo_run:
  \<open>take 2 (fst (serve started demo_requests))
     = [Tools ListTools_handler,
        Http (ok_reply (JNum 1) (RpcResult (JObj [(''tools'', JArr post_tools)])))]
   \<and> map req_path (issued (snd (serve started demo_requests))) = [''/reports/leads'', ''/reports/leads'']\<close>
  by code_simp

section \<open>Dispatch on the tool name\<close>

lemma tool_names_differ:
  "getMRR_name \<noteq> getLeads_name" "getMRR_name \<noteq> getCohorts_name" "getLeads_name \<noteq> getCohorts_name"
  by (simp_all add: getMRR_name_def getLeads_name_def getCohorts_name_def)

lemma wrapTool_threw:
  assumes "toolFn params = (Threw e, reqs)"
  shows "wrapTool env toolFn params = (Threw e, reqs)"
  using assms by (simp add: wrapTool_def)

text \<open>A tool that throws, seen from each handler.\<close>

lemma post_tools_call_threw:
  assumes "get_prop params ''name'' = Inr (JStr name)"
      and "(name = getMRR_name \<and> getMRR_run env (prop_of params ''arguments'') = (Threw e, reqs))
         \<or> (name = getLeads_name \<and> getLeads_run env (prop_of params ''arguments'') = (Threw e, reqs))
         \<or> (name = getCohorts_name \<and> getCohorts_run env (prop_of params ''arguments'') = (Threw e, reqs))"
  shows "post_tools_call env params = (RpcError (- 32603) ''Internal error'' (Some (error_message env e)), reqs)"
  using assms tool_names_differ
  by (auto simp: post_tools_call_def tool_payload_def wrapTool_threw)

lemma CallTool_handler_threw:
  assumes "(name = getMRR_name \<and> getMRR_run env args = (Threw e, reqs))
         \<or> (name = getLeads_name \<and> getLeads_run env args = (Threw e, reqs))
         \<or> (name = getCohorts_name \<and> getCohorts_run env args = (Threw e, reqs))"
  shows "CallTool_handler env name args = (Threw e, reqs)"
  using assms tool_names_differ
  by (auto simp: CallTool_handler_def wrapTool_threw)

text \<open>
  Claim C2. It asks that a \<^verbatim>\<open>tools/call\<close> for a name that is none of getMRR,
  getLeads, getCohorts runs no tool and is answered, on either transport, with the
  JSON-RPC error -32601. No tool runs and no request goes upstream on either. The
  request/response transport answers -32601 with the name in the message, for every
  name that has a string form; a name without one (an object with a \<^verbatim>\<open>toString\<close>
  property of its own) makes the log line before the \<^verbatim>\<open>switch\<close> throw, and the reply
  is -32603. The streaming transport's handler throws a plain \<^verbatim>\<open>Error\<close>, which
  carries no code, and the SDK answers it as -32603.
\<close>

theorem unknown_tool_replies:
  assumes "get_prop params ''name'' = Inr name"
      and "name \<noteq> JStr getMRR_name" and "name \<noteq> JStr getLeads_name" and "name \<noteq> JStr getCohorts_name"
  shows "(\<forall>shown. to_String (Number_toString env) name = Inr shown \<longrightarrow>
             post_tools_call env params = (RpcError (- 32601) (''Unknown tool: '' @ shown) None, []))
       \<and> (\<forall>e. to_String (Number_toString env) name = Inl e \<longrightarrow>
             post_tools_call env params =
               (RpcError (- 32603) ''Internal error'' (Some (error_message env e)), []))
       \<and> (\<forall>s. name = JStr s \<longrightarrow>
             post_tools_call env params = (RpcError (- 32601) (''Unknown tool: '' @ s) None, [])
           \<and> CallTool_handler env s args = (Threw (JsError (''Unknown tool: '' @ s)), [])
           \<and> sdk_reply env (CallTool_handler env s args) = (RpcError (- 32603) (''Unknown tool: '' @ s) None, []))"
  using assms by (simp add: post_tools_call_def CallTool_handler_def sdk_reply_def tool_payload_def)

text \<open>The call of \<^verbatim>\<open>getForecast\<close>, on each transport.\<close>

theorem unknown_tool_replies_witness:
  "post_tools_call demo_env (JObj [(''name'', JStr ''getForecast'')])
     = (RpcError (- 32601) ''Unknown tool: getForecast'' None, [])
   \<and> CallTool_handler demo_env ''getForecast'' JUndefined = (Threw (JsError ''Unknown tool: getForecast''), [])
   \<and> sdk_reply demo_env (CallTool_handler demo_env ''getForecast'' JUndefined)
     = (RpcError (- 32603) ''Unknown tool: getForecast'' None, [])"
  using unknown_tool_replies [of "JObj [(''name'', JStr ''getForecast'')]" "JStr ''getForecast''" demo_env JUndefined]
  by (simp add: getMRR_name_def getLeads_name_def getCohorts_name_def sdk_reply_def)

text \<open>
  A name that is an object with a \<^verbatim>\<open>toString\<close> property, on the request/response
  transport (the SDK refuses such a request before the handler).
\<close>

lemma post_tools_call_unprintable_name:
  "post_tools_call demo_env (JObj [(''name'', JObj [(''toString'', JNum 5)])])
     = (RpcError (- 32603) ''Internal error'' (Some ''Cannot convert object to primitive value''), [])"
  by (simp add: post_tools_call_def tool_payload_def demo_env_def)

text \<open>
  A \<^verbatim>\<open>tools/call\<close> without \<^verbatim>\<open>params\<close> on the request/response transport names no
  tool at all: the destructuring throws and the reply is -32603.
\<close>

lemma post_tools_call_without_params:
  "post_tools_call env JUndefined =
     (RpcError (- 32603) ''Internal error'' (Some (type_error_message env ''read name of undefined'')), [])"
  by (simp add: post_tools_call_def tool_payload_def)

section \<open>Validation before the upstream call\<close>

text \<open>One field with an issue and the whole parse fails.\<close>

lemma zparse_fields_issue:
  assumes "(k, z) \<in> set shape" and "fst (zparse_value z (prop_of (JObj input) k)) \<noteq> []"
  shows "fst (zparse_fields shape input) \<noteq> []"
  using assms
proof (induction shape)
  case Nil
  then show ?case by simp
next
  case (Cons kz shape)
  obtain k' z' where kz: "kz = (k', z')" by (cases kz)
  show ?case
  proof (cases "(k, z) = (k', z')")
    case True
    with Cons.prems(2) kz show ?thesis
      by (simp add: case_prod_unfold Let_def del: prop_of.simps)
  next
    case False
    with Cons.prems(1) kz have "(k, z) \<in> set shape" by auto
    with Cons.IH Cons.prems(2) have "fst (zparse_fields shape input) \<noteq> []" by blast
    with kz show ?thesis
      by (simp add: case_prod_unfold Let_def del: prop_of.simps)
  qed
qed

lemma zparse_object_fails:
  assumes "(k, z) \<in> set shape" and "fst (zparse_value z (prop_of (JObj input) k)) \<noteq> []"
  shows "\<exists>issues. zparse_object shape (JObj input) = Inl issues"
proof -
  from zparse_fields_issue [OF assms] obtain i rest out where "zparse_fields shape input = (i # rest, out)"
    by (cases "zparse_fields shape input"; cases "fst (zparse_fields shape input)") auto
  then show ?thesis by simp
qed

text \<open>What each of the three schemas holds for the constrained fields.\<close>

lemma date_field:
  assumes "shape \<in> {getMRRInput, getLeadsInput, getCohortsInput}"
  shows "\<exists>m desc. map_of shape ''date'' = Some (ZodDescribed (ZodOptional (ZodString [ZRegexDate m])) desc)"
proof -
  from assms consider "shape = getMRRInput" | "shape = getLeadsInput" | "shape = getCohortsInput"
    by blast
  then show ?thesis
    by cases (simp_all add: getMRRInput_def getLeadsInput_def getCohortsInput_def)
qed

lemma currency_field:
  assumes "shape \<in> {getMRRInput, getLeadsInput, getCohortsInput}"
  shows "\<exists>desc. map_of shape ''currency'' = Some (ZodDescribed (ZodOptional (ZodString [ZLength 3])) desc)"
proof -
  from assms consider "shape = getMRRInput" | "shape = getLeadsInput" | "shape = getCohortsInput"
    by blast
  then show ?thesis
    by cases (simp_all add: getMRRInput_def getLeadsInput_def getCohortsInput_def)
qed

lemma region_field:
  assumes "shape \<in> {getMRRInput, getLeadsInput, getCohortsInput}"
  shows "\<exists>desc. map_of shape ''region'' =
           Some (ZodDescribed (ZodOptional (ZodEnum [''europe'', ''asia'', ''north_america'', ''emea'', ''apac''])) desc)"
proof -
  from assms consider "shape = getMRRInput" | "shape = getLeadsInput" | "shape = getCohortsInput"
    by blast
  then show ?thesis
    by cases (simp_all add: getMRRInput_def getLeadsInput_def getCohortsInput_def)
qed

lemma interval_field:
  assumes "shape \<in> {getMRRInput, getLeadsInput, getCohortsInput}"
  shows "\<exists>desc. map_of shape ''interval'' =
           Some (ZodDescribed (ZodDefault (ZodOptional (ZodEnum [''day'', ''week'', ''month'', ''quarter'', ''year'']))
                                 (JStr ''month'')) desc)"
proof -
  from assms consider "shape = getMRRInput" | "shape = getLeadsInput" | "shape = getCohortsInput"
    by blast
  then show ?thesis
    by cases (simp_all add: getMRRInput_def getLeadsInput_def getCohortsInput_def)
qed

lemma billing_freq_field:
  assumes "shape \<in> {getMRRInput, getCohortsInput}"
  shows "\<exists>desc. map_of shape ''billing_freq'' =
           Some (ZodDescribed (ZodOptional (ZodEnum [''month'', ''quarter'', ''year'', ''week''])) desc)"
proof -
  from assms consider "shape = getMRRInput" | "shape = getCohortsInput"
    by blast
  then show ?thesis
    by cases (simp_all add: getMRRInput_def getCohortsInput_def)
qed

lemma zparse_object_field_fails:
  assumes "map_of shape k = Some z" and "prop_of (JObj input) k = v" and "fst (zparse_value z v) \<noteq> []"
  shows "\<exists>issues. zparse_object shape (JObj input) = Inl issues"
  using zparse_object_fails [of k z shape input] map_of_SomeD [OF assms(1)] assms(2,3)
  by blast

text \<open>
  The arguments the specification names fail the schema: a \<^verbatim>\<open>date\<close> off the pattern,
  a \<^verbatim>\<open>currency\<close> whose length is not 3, a \<^verbatim>\<open>region\<close>, an \<^verbatim>\<open>interval\<close> or (where the tool
  has the field) a \<^verbatim>\<open>billing_freq\<close> outside its enumeration.
\<close>

lemma bad_filters_fail:
  assumes "shape \<in> {getMRRInput, getLeadsInput, getCohortsInput}"
      and "(\<exists>d. prop_of (JObj input) ''date'' = JStr d \<and> \<not> date_regex_test d)
         \<or> (\<exists>c. prop_of (JObj input) ''currency'' = JStr c \<and> length c \<noteq> 3)
         \<or> (\<exists>r. prop_of (JObj input) ''region'' = JStr r
                  \<and> r \<notin> set [''europe'', ''asia'', ''north_america'', ''emea'', ''apac''])
         \<or> (\<exists>i. prop_of (JObj input) ''interval'' = JStr i
                  \<and> i \<notin> set [''day'', ''week'', ''month'', ''quarter'', ''year''])
         \<or> (shape \<noteq> getLeadsInput
              \<and> (\<exists>b. prop_of (JObj input) ''billing_freq'' = JStr b
                      \<and> b \<notin> set [''month'', ''quarter'', ''year'', ''week'']))"
  shows "\<exists>issues. zparse_object shape (JObj input) = Inl issues"
proof -
  from assms(2) consider
      (date) d where "prop_of (JObj input) ''date'' = JStr d" "\<not> date_regex_test d"
    | (currency) c where "prop_of (JObj input) ''currency'' = JStr c" "length c \<noteq> 3"
    | (region) r where "prop_of (JObj input) ''region'' = JStr r"
         "r \<notin> set [''europe'', ''asia'', ''north_america'', ''emea'', ''apac'']"
    | (interval) i where "prop_of (JObj input) ''interval'' = JStr i"
         "i \<notin> set [''day'', ''week'', ''month'', ''quarter'', ''year'']"
    | (billing) b where "shape \<noteq> getLeadsInput" "prop_of (JObj input) ''billing_freq'' = JStr b"
         "b \<notin> set [''month'', ''quarter'', ''year'', ''week'']"
    by blast
  then show ?thesis
  proof cases
    case date
    from date_field [OF assms(1)] obtain m desc
      where z: "map_of shape ''date'' = Some (ZodDescribed (ZodOptional (ZodString [ZRegexDate m])) desc)"
      by blast
    from date(2) have "fst (zparse_value (ZodDescribed (ZodOptional (ZodString [ZRegexDate m])) desc) (JStr d)) \<noteq> []"
      by simp
    with z date(1) show ?thesis by (rule zparse_object_field_fails)
  next
    case currency
    from currency_field [OF assms(1)] obtain desc
      where z: "map_of shape ''currency'' = Some (ZodDescribed (ZodOptional (ZodString [ZLength 3])) desc)"
      by blast
    from currency(2) have "fst (zparse_value (ZodDescribed (ZodOptional (ZodString [ZLength 3])) desc) (JStr c)) \<noteq> []"
      by auto
    with z currency(1) show ?thesis by (rule zparse_object_field_fails)
  next
    case region
    from region_field [OF assms(1)] obtain desc
      where z: "map_of shape ''region'' =
           Some (ZodDescribed (ZodOptional (ZodEnum [''europe'', ''asia'', ''north_america'', ''emea'', ''apac''])) desc)"
      by blast
    from region(2) have "fst (zparse_value (ZodDescribed (ZodOptional
            (ZodEnum [''europe'', ''asia'', ''north_america'', ''emea'', ''apac''])) desc) (JStr r)) \<noteq> []"
      by (simp del: set_simps)
    with z region(1) show ?thesis by (rule zparse_object_field_fails)
  next
    case interval
    from interval_field [OF assms(1)] obtain desc
      where z: "map_of shape ''interval'' =
           Some (ZodDescribed (ZodDefault (ZodOptional (ZodEnum [''day'', ''week'', ''month'', ''quarter'', ''year'']))
                                 (JStr ''month'')) desc)"
      by blast
    from interval(2) have "fst (zparse_value (ZodDescribed (ZodDefault (ZodOptional
            (ZodEnum [''day'', ''week'', ''month'', ''quarter'', ''year''])) (JStr ''month'')) desc) (JStr i)) \<noteq> []"
      by (simp del: set_simps)
    with z interval(1) show ?thesis by (rule zparse_object_field_fails)
  next
    case billing
    with assms(1) have "shape \<in> {getMRRInput, getCohortsInput}" by blast
    from billing_freq_field [OF this] obtain desc
      where z: "map_of shape ''billing_freq'' =
           Some (ZodDescribed (ZodOptional (ZodEnum [''month'', ''quarter'', ''year'', ''week''])) desc)"
      by blast
    from billing(3) have "fst (zparse_value (ZodDescribed (ZodOptional
            (ZodEnum [''month'', ''quarter'', ''year'', ''week''])) desc) (JStr b)) \<noteq> []"
      by (simp del: set_simps)
    with z billing(2) show ?thesis by (rule zparse_object_field_fails)
  qed
qed

text \<open>
  Claim C3. When the arguments of a call fail the tool's input schema, the tool's
  \<^verbatim>\<open>run\<close> throws the \<^verbatim>\<open>ZodError\<close> with no upstream request made, and each transport
  answers with an error: the request/response transport with -32603 and the error's
  message as data, the streaming transport with the SDK's error for a thrown value.
\<close>

theorem invalid_arguments_rejected:
  assumes "(name = getMRR_name \<and> zparse_object getMRRInput args = Inl issues)
         \<or> (name = getLeads_name \<and> zparse_object getLeadsInput args = Inl issues)
         \<or> (name = getCohorts_name \<and> zparse_object getCohortsInput args = Inl issues)"
  shows "(name = getMRR_name \<longrightarrow> getMRR_run env args = (Threw (ZodError issues), []))
       \<and> (name = getLeads_name \<longrightarrow> getLeads_run env args = (Threw (ZodError issues), []))
       \<and> (name = getCohorts_name \<longrightarrow> getCohorts_run env args = (Threw (ZodError issues), []))
       \<and> (\<forall>params. get_prop params ''name'' = Inr (JStr name) \<and> prop_of params ''arguments'' = args \<longrightarrow>
             post_tools_call env params =
               (RpcError (- 32603) ''Internal error'' (Some (zod_message env issues)), []))
       \<and> sdk_reply env (CallTool_handler env name args) = (RpcError (- 32603) (zod_message env issues) None, [])"
proof -
  from assms tool_names_differ
  have run: "(name = getMRR_name \<and> getMRR_run env args = (Threw (ZodError issues), []))
         \<or> (name = getLeads_name \<and> getLeads_run env args = (Threw (ZodError issues), []))
         \<or> (name = getCohorts_name \<and> getCohorts_run env args = (Threw (ZodError issues), []))"
    by (auto simp: getMRR_run_def getLeads_run_def getCohorts_run_def)
  with tool_names_differ
  have 1: "(name = getMRR_name \<longrightarrow> getMRR_run env args = (Threw (ZodError issues), []))
       \<and> (name = getLeads_name \<longrightarrow> getLeads_run env args = (Threw (ZodError issues), []))
       \<and> (name = getCohorts_name \<longrightarrow> getCohorts_run env args = (Threw (ZodError issues), []))"
    by auto
  have 2: "post_tools_call env params =
               (RpcError (- 32603) ''Internal error'' (Some (zod_message env issues)), [])"
    if "get_prop params ''name'' = Inr (JStr name) \<and> prop_of params ''arguments'' = args" for params
    using post_tools_call_threw [of params name env "ZodError issues" "[]"] that run by simp
  have 3: "sdk_reply env (CallTool_handler env name args) = (RpcError (- 32603) (zod_message env issues) None, [])"
    using CallTool_handler_threw [OF run] by (simp add: sdk_reply_def)
  from 1 2 3 show ?thesis by blast
qed

text \<open>The call of getCohorts with the four-letter currency \<^verbatim>\<open>usdx\<close>.\<close>

theorem invalid_arguments_rejected_witness:
  "getCohorts_run demo_env (JObj [(''currency'', JStr ''usdx'')])
     = (Threw (ZodError [Issue ''currency'' ''too_big'']), [])
   \<and> post_tools_call demo_env (JObj [(''name'', JStr ''getCohorts''), (''arguments'', JObj [(''currency'', JStr ''usdx'')])])
     = (RpcError (- 32603) ''Internal error'' (Some ''invalid arguments''), [])
   \<and> sdk_reply demo_env (CallTool_handler demo_env ''getCohorts'' (JObj [(''currency'', JStr ''usdx'')]))
     = (RpcError (- 32603) ''invalid arguments'' None, [])"
proof -
  have bad: "zparse_object getCohortsInput (JObj [(''currency'', JStr ''usdx'')]) = Inl [Issue ''currency'' ''too_big'']"
    by (simp add: getCohortsInput_def)
  have msg: "zod_message demo_env [Issue ''currency'' ''too_big''] = ''invalid arguments''"
    by (simp add: demo_env_def)
  from invalid_arguments_rejected [of "''getCohorts''" "JObj [(''currency'', JStr ''usdx'')]" "[Issue ''currency'' ''too_big'']" demo_env] bad
  show ?thesis
    by (simp add: getCohorts_name_def getMRR_name_def getLeads_name_def msg)
qed

section \<open>The calendar\<close>

text \<open>Division by a positive number, without the decision procedures.\<close>

lemma div_mod_decomp:
  fixes x k :: int
  assumes "0 < k"
  obtains q r where "x = k * q + r" and "0 \<le> r" and "r < k" and "q = x div k" and "r = x mod k"
  using assms by (metis mult_div_mod_eq pos_mod_bound pos_mod_sign)

lemma div_step:
  fixes x k :: int
  assumes "0 < k"
  shows "(x + 1) div k = x div k + (if (x + 1) mod k = 0 then 1 else 0)"
proof -
  from assms obtain q r where x: "x = k * q + r" and r: "0 \<le> r" "r < k" and q: "q = x div k"
    by (rule div_mod_decomp)
  show ?thesis
  proof (cases "r = k - 1")
    case True
    with x have eq: "x + 1 = k * (q + 1) + 0"
      by (simp add: algebra_simps)
    from assms have "(x + 1) div k = q + 1" and "(x + 1) mod k = 0"
      using int_div_pos_eq [OF eq] int_mod_pos_eq [OF eq] by simp_all
    with q show ?thesis by simp
  next
    case False
    with r have r': "0 \<le> r + 1" "r + 1 < k" by simp_all
    from x have eq: "x + 1 = k * q + (r + 1)" by simp
    from r' have "(x + 1) div k = q" and "(x + 1) mod k = r + 1"
      using int_div_pos_eq [OF eq] int_mod_pos_eq [OF eq] by simp_all
    with q r show ?thesis by simp
  qed
qed

lemma div_bounds:
  fixes x k :: int
  assumes "0 < k"
  shows "k * (x div k) \<le> x" and "x \<le> k * (x div k) + (k - 1)"
proof -
  from assms obtain q r where x: "x = k * q + r" and r: "0 \<le> r" "r < k" and q: "q = x div k"
    by (rule div_mod_decomp)
  from x r have "k * q \<le> x" and "x \<le> k * q + (k - 1)" by simp_all
  with q show "k * (x div k) \<le> x" and "x \<le> k * (x div k) + (k - 1)" by simp_all
qed

lemma leap_mods:
  fixes y :: int
  shows "(y - 1969 + 1) mod 4 = y mod 4"
    and "(y - 1901 + 1) mod 100 = y mod 100"
    and "(y - 1601 + 1) mod 400 = y mod 400"
    and "y mod 100 = 0 \<Longrightarrow> y mod 4 = 0"
    and "y mod 400 = 0 \<Longrightarrow> y mod 100 = 0"
proof -
  have cancel: "(x - k * n) mod k = x mod k" for x k n :: int
    using mod_mult_self2 [of x k "- n"] by simp
  show "(y - 1969 + 1) mod 4 = y mod 4"
    using cancel [of y 4 492] by simp
  show "(y - 1901 + 1) mod 100 = y mod 100"
    using cancel [of y 100 19] by simp
  show "(y - 1601 + 1) mod 400 = y mod 400"
    using cancel [of y 400 4] by simp
  have dvd: "x mod (k * n) = 0 \<Longrightarrow> x mod k = 0" for x k n :: int
    by (metis dvd_mult_left mod_0_imp_dvd dvd_imp_mod_0)
  show "y mod 100 = 0 \<Longrightarrow> y mod 4 = 0"
    using dvd [of y 4 25] by simp
  show "y mod 400 = 0 \<Longrightarrow> y mod 100 = 0"
    using dvd [of y 100 4] by simp
qed

lemma DayFromYear_Suc: "DayFromYear (y + 1) = DayFromYear y + DaysInYear y"
proof -
  define a b c where "a = (y - 1969) div 4" and "b = (y - 1901) div 100" and "c = (y - 1601) div 400"
  define a' b' c' where "a' = (y + 1 - 1969) div 4" and "b' = (y + 1 - 1901) div 100"
    and "c' = (y + 1 - 1601) div 400"
  define l4 l100 l400 :: int where "l4 = (if y mod 4 = 0 then 1 else 0)"
    and "l100 = (if y mod 100 = 0 then 1 else 0)" and "l400 = (if y mod 400 = 0 then 1 else 0)"
  have a': "a' = a + l4"
    using div_step [of 4 "y - 1969"] leap_mods(1) [of y] by (simp add: algebra_simps a_def a'_def l4_def)
  have b': "b' = b + l100"
    using div_step [of 100 "y - 1901"] leap_mods(2) [of y] by (simp add: algebra_simps b_def b'_def l100_def)
  have c': "c' = c + l400"
    using div_step [of 400 "y - 1601"] leap_mods(3) [of y] by (simp add: algebra_simps c_def c'_def l400_def)
  have days: "DaysInYear y = 365 + l4 - l100 + l400"
    using leap_mods(4,5) [of y] by (auto simp: DaysInYear_def l4_def l100_def l400_def)
  have "DayFromYear (y + 1) = 365 * (y + 1 - 1970) + a' - b' + c'"
    by (simp add: DayFromYear_def a'_def b'_def c'_def)
  also have "\<dots> = (365 * (y - 1970) + a - b + c) + (365 + l4 - l100 + l400)"
    by (simp add: a' b' c')
  also have "\<dots> = DayFromYear y + DaysInYear y"
    by (simp add: DayFromYear_def a_def b_def c_def days)
  finally show ?thesis .
qed

lemma DayFromYear_upper: "400 * DayFromYear y \<le> 146097 * (y - 1970) + 589"
proof -
  define a b c where "a = (y - 1969) div 4" and "b = (y - 1901) div 100" and "c = (y - 1601) div 400"
  have "4 * a \<le> y - 1969" and "y - 1901 \<le> 100 * b + 99" and "400 * c \<le> y - 1601"
    using div_bounds [of 4 "y - 1969"] div_bounds [of 100 "y - 1901"] div_bounds [of 400 "y - 1601"]
    by (simp_all add: a_def b_def c_def)
  then have "400 * (365 * (y - 1970) + a - b + c) \<le> 146097 * (y - 1970) + 589"
    by (simp add: algebra_simps)
  then show ?thesis
    by (simp only: DayFromYear_def a_def b_def c_def)
qed

lemma DayFromYear_lower: "146097 * (y - 1970) - 506 \<le> 400 * DayFromYear y"
proof -
  define a b c where "a = (y - 1969) div 4" and "b = (y - 1901) div 100" and "c = (y - 1601) div 400"
  have "y - 1969 \<le> 4 * a + 3" and "100 * b \<le> y - 1901" and "y - 1601 \<le> 400 * c + 399"
    using div_bounds [of 4 "y - 1969"] div_bounds [of 100 "y - 1901"] div_bounds [of 400 "y - 1601"]
    by (simp_all add: a_def b_def c_def)
  then have "146097 * (y - 1970) - 506 \<le> 400 * (365 * (y - 1970) + a - b + c)"
    by (simp add: algebra_simps)
  then show ?thesis
    by (simp only: DayFromYear_def a_def b_def c_def)
qed

lemma YearFromDay_bounds:
  "DayFromYear (YearFromDay d) \<le> d \<and> d < DayFromYear (YearFromDay d + 1)"
proof -
  define q where "q = (d * 400) div 146097"
  have q: "146097 * q \<le> 400 * d" "400 * d \<le> 146097 * q + 146096"
    using div_bounds [of 146097 "d * 400"] by (simp_all add: q_def)
  define y where "y = 1970 + q"
  define lo hi where "lo = DayFromYear (y - 1)" and "hi = DayFromYear (y + 1 + 1)"
  have "400 * lo \<le> 146097 * (q - 1) + 589"
    using DayFromYear_upper [of "y - 1"] by (simp add: lo_def y_def)
  with q have lo: "lo \<le> d" by (simp add: algebra_simps)
  have "146097 * (q + 2) - 506 \<le> 400 * hi"
    using DayFromYear_lower [of "y + 1 + 1"] by (simp add: hi_def y_def)
  with q have hi: "d < hi" by (simp add: algebra_simps)
  have year: "YearFromDay d =
     (if DayFromYear (y + 1) \<le> d then y + 1 else if d < DayFromYear y then y - 1 else y)"
    by (simp only: YearFromDay_def Let_def q_def y_def)
  show ?thesis
  proof (cases "DayFromYear (y + 1) \<le> d")
    case True
    with year hi show ?thesis by (simp add: hi_def)
  next
    case False
    show ?thesis
    proof (cases "d < DayFromYear y")
      case True
      with False year lo show ?thesis by (simp add: lo_def)
    next
      case no: False
      with False year show ?thesis by simp
    qed
  qed
qed


text \<open>So \<open>YearFromDay\<close> is the specification's year: the largest one that has begun.\<close>

lemma DayFromYear_mono:
  assumes "y \<le> y'"
  shows "DayFromYear y \<le> DayFromYear y'"
  using assms
proof (induction y' rule: int_ge_induct)
  case base
  show ?case by simp
next
  case (step i)
  have "0 \<le> DaysInYear i" by (simp add: DaysInYear_def)
  with step.IH DayFromYear_Suc [of i] show ?case by simp
qed

lemma YearFromDay_largest:
  assumes "DayFromYear y \<le> d"
  shows "y \<le> YearFromDay d"
proof (rule ccontr)
  assume "\<not> y \<le> YearFromDay d"
  then have "YearFromDay d + 1 \<le> y" by simp
  then have "DayFromYear (YearFromDay d + 1) \<le> DayFromYear y" by (rule DayFromYear_mono)
  with assms YearFromDay_bounds [of d] show False by simp
qed

lemma InLeapYear_cases: "InLeapYear t = 0 \<or> InLeapYear t = 1"
  by (simp add: InLeapYear_def)

lemma DaysInYear_InLeapYear: "DaysInYear (YearFromTime t) = 365 + InLeapYear t"
  by (simp add: InLeapYear_def DaysInYear_def)

lemma DayWithinYear_bounds: "0 \<le> DayWithinYear t \<and> DayWithinYear t < 365 + InLeapYear t"
  using YearFromDay_bounds [of "Day t"] DayFromYear_Suc [of "YearFromTime t"]
        DaysInYear_InLeapYear [of t]
  by (simp add: DayWithinYear_def YearFromTime_def)

lemma MonthFromTime_bounds: "0 \<le> MonthFromTime t \<and> MonthFromTime t \<le> 11"
  by (simp add: MonthFromTime_def Let_def)

lemma month_values:
  fixes m :: int
  assumes "0 \<le> m" and "m \<le> 11"
  shows "m \<in> {0, 1, 2, 3, 4, 5, 6, 7, 8, 9, 10, 11}"
  using assms by (simp, arith)

lemma date_table:
  fixes d l m :: int
  assumes "0 \<le> m" and "m \<le> 11"
  shows "(if m = 0 then d + 1
          else if m = 1 then d - 30
          else if m = 2 then d - 58 - l
          else if m = 3 then d - 89 - l
          else if m = 4 then d - 119 - l
          else if m = 5 then d - 150 - l
          else if m = 6 then d - 180 - l
          else if m = 7 then d - 211 - l
          else if m = 8 then d - 242 - l
          else if m = 9 then d - 272 - l
          else if m = 10 then d - 303 - l
          else d - 333 - l) = d - month_starts l ! nat m + 1"
  using month_values [OF assms]
  by (elim insertE emptyE) (simp_all add: month_starts_def)

lemma DateFromTime_month_start:
  "DateFromTime t = DayWithinYear t - month_starts (InLeapYear t) ! nat (MonthFromTime t) + 1"
  using date_table [of "MonthFromTime t" "DayWithinYear t" "InLeapYear t"] MonthFromTime_bounds [of t]
  by (simp add: DateFromTime_def Let_def)

lemma DateFromTime_bounds: "1 \<le> DateFromTime t \<and> DateFromTime t \<le> 31"
  using DayWithinYear_bounds [of t] InLeapYear_cases [of t]
  by (auto simp: DateFromTime_def MonthFromTime_def Let_def)

lemma MakeDay_of_date:
  "MakeDay (YearFromTime t) (MonthFromTime t) dt = Day t - DateFromTime t + dt"
proof -
  have m: "MonthFromTime t div 12 = 0" "MonthFromTime t mod 12 = MonthFromTime t"
    using MonthFromTime_bounds [of t] by simp_all
  have "MakeDay (YearFromTime t) (MonthFromTime t) dt
          = DayFromYear (YearFromTime t) + month_starts (InLeapYear t) ! nat (MonthFromTime t) + dt - 1"
    by (simp add: MakeDay_def Let_def m InLeapYear_def)
  also have "\<dots> = Day t - DateFromTime t + dt"
    by (simp add: DateFromTime_month_start DayWithinYear_def)
  finally show ?thesis .
qed

lemma MakeDate_Day: "MakeDate (Day t + k) (TimeWithinDay t) = t + k * msPerDay"
proof -
  have "Day t * msPerDay + TimeWithinDay t = t"
    by (simp add: Day_def TimeWithinDay_def)
  then show ?thesis
    by (simp add: MakeDate_def algebra_simps)
qed

text \<open>
  \<^verbatim>\<open>setDate\<close> on the day of the month moved by \<open>k\<close>: the local time moved by \<open>k\<close>
  whole days and read back as a local time.
\<close>

lemma setDate_getDate:
  "setDate tza d (getDate tza d + k) = UTC tza (LocalTime tza d + k * msPerDay)"
proof -
  let ?t = "LocalTime tza d"
  have "MakeDay (YearFromTime ?t) (MonthFromTime ?t) (DateFromTime ?t + k) = Day ?t + k"
    by (simp add: MakeDay_of_date)
  then have "setDate tza d (getDate tza d + k) = UTC tza (MakeDate (Day ?t + k) (TimeWithinDay ?t))"
    by (simp add: setDate_def getDate_def Let_def)
  then show ?thesis
    by (simp only: MakeDate_Day)
qed

lemma Day_add_days: "Day (t + k * msPerDay) = Day t + k"
  by (simp add: Day_def msPerDay_def)


section \<open>Digits\<close>

lemma digit_char_is_digit: "n < 10 \<Longrightarrow> is_digit (digit_char n)"
  unfolding is_digit_def digit_char_def by (rule nth_mem) simp

lemma show_nat_digits: "list_all is_digit (show_nat n)"
proof (induction n rule: show_nat.induct)
  case (1 n)
  show ?case
  proof (cases "n < 10")
    case True
    then show ?thesis
      by (subst show_nat.simps) (simp add: digit_char_is_digit)
  next
    case False
    with 1 have "list_all is_digit (show_nat (n div 10))" by simp
    moreover have "is_digit (digit_char (n mod 10))"
      by (rule digit_char_is_digit) simp
    ultimately show ?thesis
      using False by (subst show_nat.simps) simp
  qed
qed

lemma show_nat_length: "0 < k \<Longrightarrow> n < 10 ^ k \<Longrightarrow> length (show_nat n) \<le> k"
proof (induction n arbitrary: k rule: show_nat.induct)
  case (1 n)
  show ?case
  proof (cases "n < 10")
    case True
    with 1(2) show ?thesis
      by (subst show_nat.simps) simp
  next
    case False
    from False 1(2,3) have "1 < k"
      by (cases "k = 1") auto
    then obtain j where k: "k = Suc j" and j: "0 < j"
      by (cases k) auto
    from 1(3) k have "n div 10 < 10 ^ j"
      by (simp add: less_mult_imp_div_less mult.commute)
    with 1(1) [OF False j] have "length (show_nat (n div 10)) \<le> j" .
    with k False show ?thesis
      by (subst show_nat.simps) simp
  qed
qed

lemma pad_digits:
  assumes "0 < w" and "n < 10 ^ w"
  shows "length (pad w n) = w" and "list_all is_digit (pad w n)"
proof -
  from show_nat_length [OF assms] show "length (pad w n) = w"
    by (simp add: pad_def)
  have "is_digit (CHR ''0'')" by (simp add: is_digit_def)
  with show_nat_digits [of n] show "list_all is_digit (pad w n)"
    by (auto simp: pad_def list_all_iff)
qed

lemma date_regex_test_range:
  assumes "length a = 8" and "list_all is_digit a" and "length b = 8" and "list_all is_digit b"
  shows "date_regex_test (a @ ''-'' @ b)"
  using assms by (simp add: date_regex_test_def)


section \<open>Formatted dates\<close>

lemma Day_of_day: "Day (d * msPerDay) = d"
  by (simp add: Day_def msPerDay_def)

text \<open>The calendar fields of a time value are those of its day.\<close>

lemma fields_of_Day:
  assumes "Day t = Day t'"
  shows "YearFromTime t = YearFromTime t'" and "MonthFromTime t = MonthFromTime t'"
    and "DateFromTime t = DateFromTime t'"
proof -
  show y: "YearFromTime t = YearFromTime t'"
    by (simp add: YearFromTime_def assms)
  have l: "InLeapYear t = InLeapYear t'"
    by (simp add: InLeapYear_def y)
  have d: "DayWithinYear t = DayWithinYear t'"
    by (simp add: DayWithinYear_def assms y)
  show m: "MonthFromTime t = MonthFromTime t'"
    by (simp only: MonthFromTime_def d l)
  show "DateFromTime t = DateFromTime t'"
    by (simp only: DateFromTime_def d l m)
qed

lemma ymd_of_time:
  "ymd (Day t) = pad 4 (nat (YearFromTime t)) @ pad 2 (nat (MonthFromTime t + 1)) @ pad 2 (nat (DateFromTime t))"
  using fields_of_Day [of "Day t * msPerDay" t]
  by (simp add: ymd_def Let_def Day_of_day)

lemma field_digits:
  assumes "0 \<le> YearFromTime t" and "YearFromTime t \<le> 9999"
  shows "length (pad 4 (nat (YearFromTime t))) = 4" and "list_all is_digit (pad 4 (nat (YearFromTime t)))"
    and "length (pad 2 (nat (MonthFromTime t + 1))) = 2" and "list_all is_digit (pad 2 (nat (MonthFromTime t + 1)))"
    and "length (pad 2 (nat (DateFromTime t))) = 2" and "list_all is_digit (pad 2 (nat (DateFromTime t)))"
proof -
  from assms have "nat (YearFromTime t) < 10 ^ 4" by simp
  then show "length (pad 4 (nat (YearFromTime t))) = 4" and "list_all is_digit (pad 4 (nat (YearFromTime t)))"
    by (simp_all add: pad_digits)
  from MonthFromTime_bounds [of t] have "nat (MonthFromTime t + 1) < 10 ^ 2" by auto
  then show "length (pad 2 (nat (MonthFromTime t + 1))) = 2"
    and "list_all is_digit (pad 2 (nat (MonthFromTime t + 1)))"
    by (simp_all add: pad_digits)
  from DateFromTime_bounds [of t] have "nat (DateFromTime t) < 10 ^ 2" by auto
  then show "length (pad 2 (nat (DateFromTime t))) = 2" and "list_all is_digit (pad 2 (nat (DateFromTime t)))"
    by (simp_all add: pad_digits)
qed

lemma ymd_digits:
  assumes "0 \<le> YearFromDay day" and "YearFromDay day \<le> 9999"
  shows "length (ymd day) = 8" and "list_all is_digit (ymd day)"
proof -
  have y: "0 \<le> YearFromTime (day * msPerDay)" "YearFromTime (day * msPerDay) \<le> 9999"
    using assms by (simp_all add: YearFromTime_def Day_of_day)
  from field_digits [OF y] show "length (ymd day) = 8" and "list_all is_digit (ymd day)"
    by (simp_all add: ymd_def Let_def)
qed

text \<open>date-fns' \<^verbatim>\<open>format(d, "yyyyMMdd")\<close> is the local day, from the year 1 on.\<close>

lemma format_yyyyMMdd_ymd:
  assumes "1 \<le> YearFromDay (Day (LocalTime tza d))"
  shows "format_yyyyMMdd tza d = ymd (Day (LocalTime tza d))"
  using assms by (simp add: format_yyyyMMdd_def Let_def ymd_of_time YearFromTime_def)

text \<open>
  \<^verbatim>\<open>toISOString().slice(0, 10).replace(/-/g, "")\<close> is the UTC day, in the years 0 to
  9999.
\<close>

lemma not_hyphen: "list_all is_digit s \<Longrightarrow> filter (\<lambda>c. c \<noteq> CHR ''-'') s = s"
  by (induction s) (auto simp: is_digit_def)

lemma format_iso_ymd:
  assumes "0 \<le> YearFromDay (Day d)" and "YearFromDay (Day d) \<le> 9999"
  shows "format_iso d = ymd (Day d)"
proof -
  have y: "0 \<le> YearFromTime d" "YearFromTime d \<le> 9999"
    using assms by (simp_all add: YearFromTime_def)
  let ?y = "pad 4 (nat (YearFromTime d))" and ?m = "pad 2 (nat (MonthFromTime d + 1))"
  let ?d = "pad 2 (nat (DateFromTime d))"
  note f = field_digits [OF y]
  obtain rest where iso: "toISOString d = (?y @ ''-'' @ ?m @ ''-'' @ ?d) @ rest"
    using y by (simp add: toISOString_def Let_def)
  have len: "length (?y @ ''-'' @ ?m @ ''-'' @ ?d) = 10"
    using f(1,3,5) by simp
  from iso [symmetric]
  have "take (length (?y @ ''-'' @ ?m @ ''-'' @ ?d)) (toISOString d) = ?y @ ''-'' @ ?m @ ''-'' @ ?d"
    by (rule append_eq_conv_conj [THEN iffD1, THEN conjunct1, symmetric])
  then have "take 10 (toISOString d) = ?y @ ''-'' @ ?m @ ''-'' @ ?d"
    by (simp only: len)
  then have "format_iso d = ?y @ ?m @ ?d"
    using f(2,4,6) by (simp add: format_iso_def not_hyphen)
  then show ?thesis
    by (simp add: ymd_of_time)
qed

section \<open>The default date\<close>

text \<open>
  getLeads.run and getCohorts.run send the local day 365 days back and the local day
  of the call, in every zone in which the local time 365 days back, read as a time
  and written as a local time again, is on the same day (as it is unless a change of
  the clocks skips over midnight), for dates in the years 1 to 9999.
\<close>

lemma date_fns_default_date:
  assumes "today = Day (LocalTime (LocalTZA env) (now env))"
      and "Day (LocalTime (LocalTZA env) (UTC (LocalTZA env) (LocalTime (LocalTZA env) (now env) - 365 * msPerDay)))
             = today - 365"
      and "1 \<le> YearFromDay (today - 365)" and "1 \<le> YearFromDay today"
  shows "format_yyyyMMdd (LocalTZA env) (subDays (LocalTZA env) (now env) 365) @ ''-''
           @ format_yyyyMMdd (LocalTZA env) (now env)
         = ymd (today - 365) @ ''-'' @ ymd today"
proof -
  let ?tza = "LocalTZA env"
  have "subDays ?tza (now env) 365 = UTC ?tza (LocalTime ?tza (now env) - 365 * msPerDay)"
    using setDate_getDate [of ?tza "now env" "- 365"] by (simp add: subDays_def)
  with assms(2) have day: "Day (LocalTime ?tza (subDays ?tza (now env) 365)) = today - 365"
    by simp
  from assms(3) day have "format_yyyyMMdd ?tza (subDays ?tza (now env) 365) = ymd (today - 365)"
    using format_yyyyMMdd_ymd [of ?tza "subDays ?tza (now env) 365"] by simp
  moreover from assms(1,4) have "format_yyyyMMdd ?tza (now env) = ymd today"
    using format_yyyyMMdd_ymd [of ?tza "now env"] by simp
  ultimately show ?thesis by simp
qed

lemma getLeads_default_date:
  assumes "\<not> truthy (prop_of (JObj parsed) ''date'')"
      and "today = Day (LocalTime (LocalTZA env) (now env))"
      and "Day (LocalTime (LocalTZA env) (UTC (LocalTZA env) (LocalTime (LocalTZA env) (now env) - 365 * msPerDay)))
             = today - 365"
      and "1 \<le> YearFromDay (today - 365)" and "YearFromDay (today - 365) \<le> 9999"
      and "1 \<le> YearFromDay today" and "YearFromDay today \<le> 9999"
  shows "getLeads_filters env parsed = obj_set parsed ''date'' (JStr (ymd (today - 365) @ ''-'' @ ymd today))"
    and "getCohorts_filters env parsed = obj_set parsed ''date'' (JStr (ymd (today - 365) @ ''-'' @ ymd today))"
    and "date_regex_test (ymd (today - 365) @ ''-'' @ ymd today)"
proof -
  note range = date_fns_default_date [OF assms(2,3,4,6)]
  from assms(1) range show "getLeads_filters env parsed
      = obj_set parsed ''date'' (JStr (ymd (today - 365) @ ''-'' @ ymd today))"
    by (simp add: getLeads_filters_def Let_def del: prop_of.simps)
  from assms(1) range show "getCohorts_filters env parsed
      = obj_set parsed ''date'' (JStr (ymd (today - 365) @ ''-'' @ ymd today))"
    by (simp add: getCohorts_filters_def Let_def del: prop_of.simps)
  from assms(4,5,6,7) show "date_regex_test (ymd (today - 365) @ ''-'' @ ymd today)"
    by (intro date_regex_test_range ymd_digits) simp_all
qed

text \<open>
  \<^verbatim>\<open>d.setDate(dt)\<close> moves \<^verbatim>\<open>d\<close> in local time by as many days as \<^verbatim>\<open>dt\<close> is from
  the day of the month of \<^verbatim>\<open>d\<close>.
\<close>

lemma setDate_days:
  "setDate tza d dt = UTC tza (LocalTime tza d + (dt - getDate tza d) * msPerDay)"
  using setDate_getDate [of tza d "dt - getDate tza d"] by simp

text \<open>
  getMRR.run sends the UTC day of its first reading of the clock, as the end, and as
  the start the UTC day of the instant whose local time is the local time of the
  second reading moved by 365 days back and by the difference of the two readings'
  days of the month, for dates in the years 0 to 9999.
\<close>

lemma getMRR_default_date:
  assumes "\<not> truthy (prop_of (JObj parsed) ''date'')"
      and "today = Day (now env)"
      and "start = Day (UTC (LocalTZA env)
                     (LocalTime (LocalTZA env) (now_again env)
                      + (getDate (LocalTZA env) (now env) - 365 - getDate (LocalTZA env) (now_again env)) * msPerDay))"
      and "0 \<le> YearFromDay start" and "YearFromDay start \<le> 9999"
      and "0 \<le> YearFromDay today" and "YearFromDay today \<le> 9999"
  shows "getMRR_filters env parsed = obj_set parsed ''date'' (JStr (ymd start @ ''-'' @ ymd today))"
    and "date_regex_test (ymd start @ ''-'' @ ymd today)"
proof -
  let ?tza = "LocalTZA env"
  let ?moved = "UTC ?tza (LocalTime ?tza (now_again env)
                  + (getDate ?tza (now env) - 365 - getDate ?tza (now_again env)) * msPerDay)"
  have "setDate ?tza (now_again env) (getDate ?tza (now env) - 365) = ?moved"
    by (rule setDate_days)
  then have "format_iso (setDate ?tza (now_again env) (getDate ?tza (now env) - 365)) = ymd start"
    using format_iso_ymd [of ?moved] assms(3,4,5) by simp
  moreover have "format_iso (now env) = ymd today"
    using format_iso_ymd [of "now env"] assms(2,6,7) by simp
  ultimately show "getMRR_filters env parsed = obj_set parsed ''date'' (JStr (ymd start @ ''-'' @ ymd today))"
    using assms(1) by (simp add: getMRR_filters_def Let_def del: prop_of.simps)
  from assms(4,5,6,7) show "date_regex_test (ymd start @ ''-'' @ ymd today)"
    by (intro date_regex_test_range ymd_digits) simp_all
qed

text \<open>
  The range is of 365 days where the zone's offset is constant and the two readings
  of the clock are on the same day, in the zone and in UTC.
\<close>

lemma getMRR_default_date_constant_offset:
  assumes "\<not> truthy (prop_of (JObj parsed) ''date'')"
      and "\<And>t isUTC. LocalTZA env t isUTC = c"
      and "getDate (LocalTZA env) (now_again env) = getDate (LocalTZA env) (now env)"
      and "Day (now_again env) = Day (now env)"
      and "today = Day (now env)"
      and "0 \<le> YearFromDay (today - 365)" and "YearFromDay (today - 365) \<le> 9999"
      and "0 \<le> YearFromDay today" and "YearFromDay today \<le> 9999"
  shows "getMRR_filters env parsed = obj_set parsed ''date'' (JStr (ymd (today - 365) @ ''-'' @ ymd today))"
proof -
  have "UTC (LocalTZA env)
          (LocalTime (LocalTZA env) (now_again env)
           + (getDate (LocalTZA env) (now env) - 365 - getDate (LocalTZA env) (now_again env)) * msPerDay)
          = now_again env + (- 365) * msPerDay"
    by (simp add: UTC_def LocalTime_def assms(2,3))
  then have "today - 365 = Day (UTC (LocalTZA env)
          (LocalTime (LocalTZA env) (now_again env)
           + (getDate (LocalTZA env) (now env) - 365 - getDate (LocalTZA env) (now_again env)) * msPerDay))"
    using Day_add_days [of "now_again env" "- 365"] assms(4,5) by simp
  from getMRR_default_date(1) [OF assms(1,5) this assms(6,7,8,9)] show ?thesis .
qed

text \<open>
  Two readings on either side of a midnight that ends a month, in a process on UTC:
  the end is read at 2024-01-31T23:59:59.999Z and the start at 2024-02-01T00:00:00.000Z,
  and \<^verbatim>\<open>setDate(31 - 365)\<close> counts from the first of February.
\<close>

lemma getMRR_readings_across_midnight:
  "map req_query (snd (getMRR_run
       (demo_env \<lparr> now := 1706745599999, now_again := 1706745600000, LocalTZA := (\<lambda>t isUTC. 0) \<rparr>)
       (JObj [])))
     = [[(''interval'', ''month''), (''date'', ''20230303-20240131'')]]"
  by code_simp

text \<open>In the example process they are 366 days apart.\<close>

lemma getMRR_start_in_copenhagen:
  "getDate (LocalTZA demo_env) (now_again demo_env) = getDate (LocalTZA demo_env) (now demo_env)
   \<and> Day (now demo_env)
       - Day (UTC (LocalTZA demo_env) (LocalTime (LocalTZA demo_env) (now_again demo_env) - 365 * msPerDay)) = 366"
  by code_simp

text \<open>
  Claim C4. It asks that a call without \<^verbatim>\<open>date\<close> sends upstream a \<^verbatim>\<open>date\<close> of two
  eight-digit days, today and exactly 365 days before today. getMRR.run moves its
  start by local calendar days and writes both ends in UTC. In the example process
  (Copenhagen, 2024-03-28, 01:30 local time, 00:30 UTC) the local day 365 days back
  is 2023-03-29, 01:30 in summer time, which is 2023-03-28, 23:30 UTC: the tool sends
  \<^verbatim>\<open>20230328-20240328\<close>, a range whose start is 366 days before its end (the
  day 365 days before is 2023-03-29).
\<close>

theorem getMRR_default_date_in_copenhagen:
  "toISOString (now demo_env) = ''2024-03-28T00:30:00.000Z''
   \<and> map req_query (snd (getMRR_run demo_env (JObj [])))
       = [[(''interval'', ''month''), (''date'', ''20230328-20240328'')]]
   \<and> ymd (Day (now demo_env) - 365) = ''20230329''
   \<and> MakeDay 2024 2 28 - MakeDay 2023 2 28 = 366"
  by code_simp

text \<open>
  getLeads.run and getCohorts.run, which format both ends in local time, send the 365
  days in the same process at the same instant.
\<close>

lemma getLeads_default_date_in_copenhagen:
  "map req_query (snd (getLeads_run demo_env (JObj [])))
       = [[(''interval'', ''month''), (''date'', ''20230329-20240328'')]]
   \<and> map req_query (snd (getCohorts_run demo_env (JObj [])))
       = [[(''interval'', ''month''), (''date'', ''20230329-20240328'')]]
   \<and> MakeDay 2024 2 28 - MakeDay 2023 2 29 = 365"
  by code_simp

text \<open>The condition of \<open>getLeads_default_date\<close> on the zone holds there.\<close>

lemma local_day_kept_in_copenhagen:
  "Day (LocalTime (LocalTZA demo_env)
          (UTC (LocalTZA demo_env) (LocalTime (LocalTZA demo_env) (now demo_env) - 365 * msPerDay)))
     = Day (LocalTime (LocalTZA demo_env) (now demo_env)) - 365"
  by code_simp

section \<open>The upstream client\<close>












text \<open>An empty string is a value like any other: its field is present and is sent.\<close>

lemma callApi_empty_string_value:
  "map req_query (snd (callApi demo_env ''mrr'' [(''payment_method'', JStr '''')]))
     = [[(''payment_method'', '''')]]"
  by (simp add: callApi_def demo_env_def baseUrl_def)

text \<open>
  Claim C6. Without the token (\<^verbatim>\<open>GROWPANEL_API_TOKEN\<close> unset, or set to the empty
  string), \<^verbatim>\<open>callApi\<close> throws its configuration error and issues no request, whatever
  the endpoint and the filters.
\<close>

theorem callApi_without_token:
  assumes "GROWPANEL_API_TOKEN env = None \<or> GROWPANEL_API_TOKEN env = Some []"
  shows "callApi env endpoint params =
           (Threw (JsError ''GROWPANEL_API_KEY environment variable is required''), [])"
  using assms by (auto simp: callApi_def)

theorem callApi_without_token_witness:
  "callApi (demo_env \<lparr> GROWPANEL_API_TOKEN := None \<rparr>) ''mrr'' [(''interval'', JStr ''month'')] =
     (Threw (JsError ''GROWPANEL_API_KEY environment variable is required''), [])"
  using callApi_without_token [of "demo_env \<lparr> GROWPANEL_API_TOKEN := None \<rparr>" "''mrr''" "[(''interval'', JStr ''month'')]"]
  by simp







section \<open>Bodies that are not JSON\<close>

text \<open>
  Claim C8. A POST body that \<^verbatim>\<open>JSON.parse\<close> refuses is answered with HTTP status 400
  and a JSON-RPC error of code -32700 (Parse error) and id \<^verbatim>\<open>null\<close>; no upstream
  request is made.
\<close>

theorem post_events_unparseable:
  assumes "JSON_parse env body = Inl m"
  shows "post_events env body =
           (\<lparr> reply_status = 400,
              reply_body = \<lparr> rpc_id = JNull, rpc_payload = RpcError (- 32700) ''Parse error'' (Some m) \<rparr> \<rparr>,
            [])"
  using assms by (simp add: post_events_def parse_error_reply_def)

theorem post_events_unparseable_witness:
  "post_events demo_env ''{not json'' =
           (\<lparr> reply_status = 400,
              reply_body = \<lparr> rpc_id = JNull,
                             rpc_payload = RpcError (- 32700) ''Parse error'' (Some ''Unexpected token'') \<rparr> \<rparr>,
            [])"
proof -
  have "JSON_parse demo_env ''{not json'' = Inl ''Unexpected token''"
    by (simp add: demo_env_def demo_parse_def demo_bodies_def)
  then show ?thesis
    by (rule post_events_unparseable)
qed

text \<open>
  The same reply goes to a body that is JSON but parses to \<^verbatim>\<open>null\<close>: reading its
  \<^verbatim>\<open>method\<close> throws inside the same \<^verbatim>\<open>try\<close>.
\<close>

lemma post_events_null_body:
  assumes "JSON_parse env body = Inr JNull"
  shows "reply_status (fst (post_events env body)) = 400"
  using assms by (simp add: post_events_def parse_error_reply_def)

section \<open>The result wrapper\<close>

text \<open>
  Claim C10. Whatever a tool's run function returns, \<^verbatim>\<open>wrapTool\<close> hands on: the
  value itself when it is truthy and its \<^verbatim>\<open>content\<close> is truthy; for an array (which
  has no \<^verbatim>\<open>content\<close>) an envelope with one text block per element; for anything else
  an envelope with one text block; a string is the text as it is, any other value is
  serialised. Nothing checks what \<^verbatim>\<open>content\<close> is: an object whose \<^verbatim>\<open>content\<close> is any
  truthy value passes unwrapped.
\<close>

theorem wrapTool_result:
  assumes "toolFn params = (Returned v, reqs)"
  shows "(truthy v \<and> truthy (prop_of v ''content'') \<longrightarrow> wrapTool env toolFn params = (Returned v, reqs))
       \<and> (\<forall>items. v = JArr items \<longrightarrow>
             wrapTool env toolFn params =
               (Returned (envelope (map (\<lambda>item. text_block (case item of JStr s \<Rightarrow> JStr s | _ \<Rightarrow> stringify env item)) items)), reqs))
       \<and> (\<not> (truthy v \<and> truthy (prop_of v ''content'')) \<and> (\<forall>items. v \<noteq> JArr items) \<longrightarrow>
             wrapTool env toolFn params =
               (Returned (envelope [text_block (case v of JStr s \<Rightarrow> JStr s | _ \<Rightarrow> stringify env v)]), reqs))
       \<and> (\<forall>kvs c. v = JObj kvs \<and> map_of kvs ''content'' = Some c \<and> truthy c \<longrightarrow>
             wrapTool env toolFn params = (Returned v, reqs))"
proof (intro conjI allI impI)
  assume "truthy v \<and> truthy (prop_of v ''content'')"
  with assms show "wrapTool env toolFn params = (Returned v, reqs)"
    by (simp add: wrapTool_def wrap_result_def)
next
  fix items assume "v = JArr items"
  with assms show "wrapTool env toolFn params =
      (Returned (envelope (map (\<lambda>item. text_block (case item of JStr s \<Rightarrow> JStr s | _ \<Rightarrow> stringify env item)) items)), reqs)"
    by (simp add: wrapTool_def wrap_result_def item_text_def)
next
  assume a: "\<not> (truthy v \<and> truthy (prop_of v ''content'')) \<and> (\<forall>items. v \<noteq> JArr items)"
  then have "wrap_result env v = envelope [text_block (item_text env v)]"
    by (cases v) (simp_all add: wrap_result_def)
  with assms show "wrapTool env toolFn params =
      (Returned (envelope [text_block (case v of JStr s \<Rightarrow> JStr s | _ \<Rightarrow> stringify env v)]), reqs)"
    by (simp add: wrapTool_def item_text_def)
next
  fix kvs c assume "v = JObj kvs \<and> map_of kvs ''content'' = Some c \<and> truthy c"
  with assms show "wrapTool env toolFn params = (Returned v, reqs)"
    by (simp add: wrapTool_def wrap_result_def)
qed

text \<open>
  A tool that returns \<^verbatim>\<open>{ content: "not blocks" }\<close>, one that returns
  \<^verbatim>\<open>["a", 1]\<close> and one that returns \<^verbatim>\<open>42\<close>.
\<close>

theorem wrapTool_result_witness:
  "wrapTool demo_env (\<lambda>p. (Returned (JObj [(''content'', JStr ''not blocks'')]), [])) JNull
     = (Returned (JObj [(''content'', JStr ''not blocks'')]), [])
   \<and> wrapTool demo_env (\<lambda>p. (Returned (JArr [JStr ''a'', JNum 1]), [])) JNull
     = (Returned (JObj [(''content'', JArr [JObj [(''type'', JStr ''text''), (''text'', JStr ''a'')],
                                              JObj [(''type'', JStr ''text''), (''text'', JStr ''1'')]])]), [])
   \<and> wrapTool demo_env (\<lambda>p. (Returned (JNum 42), [])) JNull
     = (Returned (JObj [(''content'', JArr [JObj [(''type'', JStr ''text''), (''text'', JStr ''42'')]])]), [])"
proof -
  have s: "stringify demo_env (JNum 1) = JStr ''1''" "stringify demo_env (JNum 42) = JStr ''42''"
    by (simp_all add: stringify_def demo_env_def demo_stringify_def show_int_def show_nat.simps digit_char_def)
  have 1: "wrapTool demo_env (\<lambda>p. (Returned (JObj [(''content'', JStr ''not blocks'')]), [])) JNull
     = (Returned (JObj [(''content'', JStr ''not blocks'')]), [])"
    using wrapTool_result [of "\<lambda>p. (Returned (JObj [(''content'', JStr ''not blocks'')]), [])" JNull
                              "JObj [(''content'', JStr ''not blocks'')]" "[]" demo_env]
    by simp
  have 2: "wrapTool demo_env (\<lambda>p. (Returned (JArr [JStr ''a'', JNum 1]), [])) JNull
     = (Returned (JObj [(''content'', JArr [JObj [(''type'', JStr ''text''), (''text'', JStr ''a'')],
                                              JObj [(''type'', JStr ''text''), (''text'', JStr ''1'')]])]), [])"
    using wrapTool_result [of "\<lambda>p. (Returned (JArr [JStr ''a'', JNum 1]), [])" JNull
                              "JArr [JStr ''a'', JNum 1]" "[]" demo_env]
    by (simp add: envelope_def text_block_def s)
  have 3: "wrapTool demo_env (\<lambda>p. (Returned (JNum 42), [])) JNull
     = (Returned (JObj [(''content'', JArr [JObj [(''type'', JStr ''text''), (''text'', JStr ''42'')]])]), [])"
    using wrapTool_result [of "\<lambda>p. (Returned (JNum 42), [])" JNull "JNum 42" "[]" demo_env]
    by (simp add: envelope_def text_block_def s)
  from 1 2 3 show ?thesis by blast
qed

end
